theory Spec2Isabelle
  imports Complex_Main "HOL-Library.List_Lexorder" "HOL-Library.Char_ord"
begin

section \<open>Common conventions\<close>

text \<open>
  The services talk to a relational store through a query client. A table is a list of
  rows; \<open>findUnique\<close>/\<open>findFirst\<close> are \<open>find\<close>, \<open>update\<close> with a
  \<open>where: { id }\<close> rewrites the rows of that id, \<open>delete\<close>/\<open>deleteMany\<close>
  filter rows out, \<open>create\<close> appends a row. The opaque string identifiers of the
  source are natural numbers. Timestamps are integer milliseconds, integer columns are
  integers, and a float column holds the real its double denotes. The arithmetic of the
  basket totals is the rounding arithmetic of doubles, set out in its own section; the
  hours elapsed between two instants are their exact quotient. \<open>undefined\<close> is
  \<open>None\<close>.
\<close>

type_synonym ident = nat

text \<open>\<open>Math.round\<close>: the nearest integer, a half rounding towards plus infinity.\<close>

definition Math_round :: "real \<Rightarrow> int" where
  "Math_round x = \<lfloor>x + 1 / 2\<rfloor>"

section \<open>Feed service\<close>

record feed_post =
  post_id :: ident
  post_userId :: ident
  post_visibility :: string
  likesCount :: int

record feed_store =
  friend_rows :: "(ident \<times> ident) list"
  feedPost_rows :: "feed_post list"
  feedPostLike_rows :: "(ident \<times> ident) list"

datatype feed_error = Post_not_found

text \<open>\<open>getFriendUids\<close>: the \<open>friendUid\<close> column of the caller's friend rows
  (a row is \<open>(userId, friendUid)\<close>).\<close>

definition getFriendUids :: "feed_store \<Rightarrow> ident \<Rightarrow> ident list" where
  "getFriendUids s userId = map snd (filter (\<lambda>r. fst r = userId) (friend_rows s))"

definition getAccessiblePost :: "feed_store \<Rightarrow> ident \<Rightarrow> ident \<Rightarrow> feed_post option" where
  "getAccessiblePost s postId userId =
     (let allowed = userId # getFriendUids s userId
      in find (\<lambda>p. post_id p = postId \<and>
                 (post_visibility p = ''public'' \<or>
                  (post_visibility p = ''friends'' \<and> post_userId p \<in> set allowed)))
           (feedPost_rows s))"

text \<open>\<open>feedPost.update({ where: { id }, data: { likesCount: { increment: d } } })\<close>.\<close>

definition increment_likesCount :: "ident \<Rightarrow> int \<Rightarrow> feed_post list \<Rightarrow> feed_post list" where
  "increment_likesCount postId d rows =
     map (\<lambda>p. if post_id p = postId then p\<lparr>likesCount := likesCount p + d\<rparr> else p) rows"

text \<open>\<open>toggleLike\<close>: a like row \<open>(postId, userId)\<close> is looked up by its unique key;
  an existing one is deleted and the counter decremented (result \<open>false\<close>), a missing
  one is created and the counter incremented (result \<open>true\<close>).\<close>

definition toggleLike :: "feed_store \<Rightarrow> ident \<Rightarrow> ident \<Rightarrow> feed_error + (bool \<times> feed_store)" where
  "toggleLike s postId userId =
     (case getAccessiblePost s postId userId of
        None \<Rightarrow> Inl Post_not_found
      | Some post \<Rightarrow>
          if (postId, userId) \<in> set (feedPostLike_rows s)
          then Inr (False,
                 s\<lparr>feedPostLike_rows := filter (\<lambda>l. l \<noteq> (postId, userId)) (feedPostLike_rows s),
                   feedPost_rows := increment_likesCount postId (- 1) (feedPost_rows s)\<rparr>)
          else Inr (True,
                 s\<lparr>feedPostLike_rows := feedPostLike_rows s @ [(postId, userId)],
                   feedPost_rows := increment_likesCount postId 1 (feedPost_rows s)\<rparr>))"

text \<open>A sequence of \<open>n\<close> calls by one user on one post; the results in call order.\<close>

fun toggleLike_times :: "nat \<Rightarrow> feed_store \<Rightarrow> ident \<Rightarrow> ident \<Rightarrow> feed_error + (bool list \<times> feed_store)" where
  "toggleLike_times 0 s postId userId = Inr ([], s)"
| "toggleLike_times (Suc n) s postId userId =
     (case toggleLike s postId userId of
        Inl e \<Rightarrow> Inl e
      | Inr (b, s') \<Rightarrow>
          (case toggleLike_times n s' postId userId of
             Inl e \<Rightarrow> Inl e
           | Inr (bs, s'') \<Rightarrow> Inr (b # bs, s'')))"

text \<open>The counter of a post as stored.\<close>

definition likesCount_of :: "feed_store \<Rightarrow> ident \<Rightarrow> int option" where
  "likesCount_of s postId =
     map_option likesCount (find (\<lambda>p. post_id p = postId) (feedPost_rows s))"

text \<open>The flags \<open>b, \<not> b, b, \<dots>\<close> of length \<open>n\<close>.\<close>

fun alternating :: "bool \<Rightarrow> nat \<Rightarrow> bool list" where
  "alternating b 0 = []"
| "alternating b (Suc n) = b # alternating (\<not> b) n"

definition count_flag :: "bool \<Rightarrow> bool list \<Rightarrow> int" where
  "count_flag b bs = int (length (filter (\<lambda>x. x = b) bs))"

section \<open>Strings and responses\<close>

text \<open>\<open>String.prototype.toLowerCase\<close> on the ASCII letters.\<close>

definition toLowerCase_char :: "char \<Rightarrow> char" where
  "toLowerCase_char c =
     (case map_of (zip ''ABCDEFGHIJKLMNOPQRSTUVWXYZ'' ''abcdefghijklmnopqrstuvwxyz'') c of
        None \<Rightarrow> c
      | Some l \<Rightarrow> l)"

definition toLowerCase :: "string \<Rightarrow> string" where
  "toLowerCase s = map toLowerCase_char s"

text \<open>\<open>String.prototype.includes\<close>: the pattern occurs as a substring.\<close>

fun str_includes :: "string \<Rightarrow> string \<Rightarrow> bool" where
  "str_includes [] pat = (pat = [])"
| "str_includes (c # cs) pat = (take (length pat) (c # cs) = pat \<or> str_includes cs pat)"

text \<open>\<open>s.trim().length > 0\<close>: some character of \<open>s\<close> is not white space
  (space, tab, line feed, vertical tab, form feed, carriage return).\<close>

definition is_white_space :: "char \<Rightarrow> bool" where
  "is_white_space c = (c \<in> set [CHR '' '', CHR 0x09, CHR 0x0A, CHR 0x0B, CHR 0x0C, CHR 0x0D])"

definition trim_nonempty :: "string \<Rightarrow> bool" where
  "trim_nonempty s = (filter (\<lambda>c. \<not> is_white_space c) s \<noteq> [])"

text \<open>Decimal digits of a natural number, for template strings.\<close>

fun string_of_nat :: "nat \<Rightarrow> string" where
  "string_of_nat n =
     (if n < 10 then [''0123456789'' ! n]
      else string_of_nat (n div 10) @ [''0123456789'' ! (n mod 10)])"

text \<open>
  \<open>parseInt\<close> on a query-string value: leading white space, an optional sign, then
  decimal digits (or hexadecimal digits after \<open>0x\<close>); \<open>None\<close> is \<open>NaN\<close>.
\<close>

definition digit_value :: "char \<Rightarrow> nat option" where
  "digit_value c =
     map_of (zip ''0123456789abcdefABCDEF''
               [0, 1, 2, 3, 4, 5, 6, 7, 8, 9, 10, 11, 12, 13, 14, 15, 10, 11, 12, 13, 14, 15]) c"

fun parse_digits :: "nat \<Rightarrow> nat option \<Rightarrow> string \<Rightarrow> nat option" where
  "parse_digits radix acc [] = acc"
| "parse_digits radix acc (c # cs) =
     (case digit_value c of
        None \<Rightarrow> acc
      | Some d \<Rightarrow>
          if d < radix
          then parse_digits radix (Some ((case acc of None \<Rightarrow> 0 | Some a \<Rightarrow> a) * radix + d)) cs
          else acc)"

definition parse_unsigned :: "string \<Rightarrow> nat option" where
  "parse_unsigned s =
     (if take 2 s = ''0x'' \<or> take 2 s = ''0X'' then parse_digits 16 None (drop 2 s)
      else parse_digits 10 None s)"

definition parseInt :: "string \<Rightarrow> int option" where
  "parseInt s =
     (case dropWhile is_white_space s of
        [] \<Rightarrow> None
      | c # cs \<Rightarrow>
          if c = CHR ''-'' then map_option (\<lambda>n. - int n) (parse_unsigned cs)
          else if c = CHR ''+'' then map_option int (parse_unsigned cs)
          else map_option int (parse_unsigned (c # cs)))"

text \<open>
  The response helpers: \<open>sendSuccess\<close> and \<open>sendCreated\<close> carry a payload,
  \<open>sendError(res, message, status, code)\<close> a message, a status and an optional code.
\<close>

datatype 'a response =
    Success 'a
  | Created 'a
  | Failure string nat "string option"

text \<open>What the query client throws: a code and a message.\<close>

record js_error =
  err_code :: "string option"
  err_message :: string

definition Error :: "string \<Rightarrow> js_error" where
  "Error msg = \<lparr>err_code = None, err_message = msg\<rparr>"

text \<open>The client's \<open>P2025\<close>: an update or delete names a row that does not exist.\<close>

definition record_not_found :: js_error where
  "record_not_found =
     \<lparr>err_code = Some ''P2025'', err_message = ''Record to update not found.''\<rparr>"

text \<open>The client's \<open>P2002\<close>: a write would store a second row under a unique key.
  The client's message names the call and the fields of the key; it is given in short.\<close>

definition unique_constraint_failed :: js_error where
  "unique_constraint_failed =
     \<lparr>err_code = Some ''P2002'', err_message = ''Unique constraint failed''\<rparr>"

text \<open>The client refuses a negative \<open>skip\<close>.\<close>

definition invalid_skip :: js_error where
  "invalid_skip =
     \<lparr>err_code = None, err_message = ''Invalid value for skip argument''\<rparr>"

text \<open>
  \<open>findMany({ skip, take })\<close> on the rows already filtered and ordered: a negative
  \<open>take\<close> counts from the end of the list.
\<close>

definition skip_take :: "int \<Rightarrow> int \<Rightarrow> 'a list \<Rightarrow> js_error + 'a list" where
  "skip_take skip_n take_n rows =
     (if skip_n < 0 then Inl invalid_skip
      else if 0 \<le> take_n then Inr (take (nat take_n) (drop (nat skip_n) rows))
      else Inr (rev (take (nat (- take_n)) (drop (nat skip_n) (rev rows)))))"

section \<open>Food service\<close>

record food_item =
  fi_id :: ident
  fi_name :: string
  fi_description :: "string option"
  fi_imageUrl :: "string option"
  fi_calories :: real
  fi_carbs :: real
  fi_protein :: real
  fi_fat :: real
  fi_servingSize :: real
  fi_servingUnit :: string
  fi_category :: "string option"
  fi_source :: string
  fi_sourceUrl :: "string option"

text \<open>A basket row together with the food item it references, as
  \<open>include: { foodItem: true }\<close> returns it.\<close>

record basket_item =
  bi_id :: ident
  bi_userId :: ident
  bi_quantity :: real
  bi_servingSize :: real
  bi_createdAt :: int
  bi_foodItem :: food_item

record food_store =
  foodItem_rows :: "food_item list"
  basketItem_rows :: "basket_item list"
  food_next_id :: ident

text \<open>An item as the scraper returns it and \<open>bulkImportFoodItems\<close> takes it.\<close>

record scraped_item =
  sc_name :: string
  sc_description :: "string option"
  sc_imageUrl :: "string option"
  sc_calories :: real
  sc_carbs :: real
  sc_protein :: real
  sc_fat :: real
  sc_servingSize :: "real option"
  sc_servingUnit :: "string option"
  sc_category :: "string option"
  sc_source :: "string option"
  sc_sourceUrl :: "string option"

record search_result =
  sr_items :: "food_item list"
  sr_total :: nat
  sr_page :: int
  sr_limit :: int
  sr_totalPages :: int

text \<open>\<open>x || d\<close> on an optional number: \<open>undefined\<close>, \<open>NaN\<close> and \<open>0\<close> give \<open>d\<close>.\<close>

definition or_default :: "int option \<Rightarrow> int \<Rightarrow> int" where
  "or_default x d = (case x of None \<Rightarrow> d | Some v \<Rightarrow> if v = 0 then d else v)"

text \<open>\<open>x || d\<close> on an optional string: \<open>undefined\<close> and the empty string give \<open>d\<close>.\<close>

definition str_or :: "string option \<Rightarrow> string option \<Rightarrow> string option" where
  "str_or x d = (case x of None \<Rightarrow> d | Some v \<Rightarrow> if v = [] then d else Some v)"

text \<open>The \<open>where\<close> of \<open>searchFoodItems\<close>: a non-empty \<open>search\<close> asks for a name
  that contains it, letter case ignored; a non-empty \<open>category\<close> for that category.\<close>

definition search_where :: "string option \<Rightarrow> string option \<Rightarrow> food_item \<Rightarrow> bool" where
  "search_where search category f =
     ((case search of
         None \<Rightarrow> True
       | Some q \<Rightarrow> q = [] \<or> str_includes (toLowerCase (fi_name f)) (toLowerCase q)) \<and>
      (case category of
         None \<Rightarrow> True
       | Some c \<Rightarrow> c = [] \<or> fi_category f = Some c))"

definition searchFoodItems ::
  "food_store \<Rightarrow> string option \<Rightarrow> string option \<Rightarrow> int option \<Rightarrow> int option
     \<Rightarrow> js_error + search_result" where
  "searchFoodItems s search category page limit =
     (let page' = or_default page 1;
          limit' = min (or_default limit 20) 100;
          skip = (page' - 1) * limit';
          matching = filter (search_where search category) (foodItem_rows s)
      in case skip_take skip limit' (sort_key fi_name matching) of
           Inl e \<Rightarrow> Inl e
         | Inr items \<Rightarrow>
             Inr \<lparr>sr_items = items,
                  sr_total = length matching,
                  sr_page = page',
                  sr_limit = limit',
                  sr_totalPages = \<lceil>real (length matching) / real_of_int limit'\<rceil>\<rparr>)"

text \<open>\<open>bulkImportFoodItems\<close>, one item: an existing row of the same name and source
  is updated in place, otherwise a row is created.\<close>

definition import_source :: "scraped_item \<Rightarrow> string" where
  "import_source item = (case str_or (sc_source item) (Some ''scraped'') of
                           None \<Rightarrow> ''scraped'' | Some v \<Rightarrow> v)"

definition import_update :: "scraped_item \<Rightarrow> food_item \<Rightarrow> food_item" where
  "import_update item existing =
     existing\<lparr>fi_calories := sc_calories item,
              fi_carbs := sc_carbs item,
              fi_protein := sc_protein item,
              fi_fat := sc_fat item,
              fi_description := str_or (sc_description item) (fi_description existing),
              fi_imageUrl := str_or (sc_imageUrl item) (fi_imageUrl existing),
              fi_category := str_or (sc_category item) (fi_category existing),
              fi_sourceUrl := str_or (sc_sourceUrl item) (fi_sourceUrl existing)\<rparr>"

definition import_create :: "ident \<Rightarrow> scraped_item \<Rightarrow> food_item" where
  "import_create new_id item =
     \<lparr>fi_id = new_id,
      fi_name = sc_name item,
      fi_description = sc_description item,
      fi_imageUrl = sc_imageUrl item,
      fi_calories = sc_calories item,
      fi_carbs = sc_carbs item,
      fi_protein = sc_protein item,
      fi_fat = sc_fat item,
      fi_servingSize = (case sc_servingSize item of
                          None \<Rightarrow> 100 | Some v \<Rightarrow> if v = 0 then 100 else v),
      fi_servingUnit = (case str_or (sc_servingUnit item) (Some ''g'') of
                          None \<Rightarrow> ''g'' | Some v \<Rightarrow> v),
      fi_category = sc_category item,
      fi_source = import_source item,
      fi_sourceUrl = sc_sourceUrl item\<rparr>"

definition import_one :: "food_store \<Rightarrow> scraped_item \<Rightarrow> food_store" where
  "import_one s item =
     (case find (\<lambda>f. fi_name f = sc_name item \<and> fi_source f = import_source item)
             (foodItem_rows s) of
        Some existing \<Rightarrow>
          s\<lparr>foodItem_rows :=
              map (\<lambda>f. if fi_id f = fi_id existing then import_update item f else f)
                (foodItem_rows s)\<rparr>
      | None \<Rightarrow>
          s\<lparr>foodItem_rows := foodItem_rows s @ [import_create (food_next_id s) item],
            food_next_id := Suc (food_next_id s)\<rparr>)"

text \<open>\<open>bulkImportFoodItems\<close> returns \<open>{ successful, failed, total }\<close>; here the
  store after the import and the number of items, all of them successful.\<close>

definition bulkImportFoodItems :: "food_store \<Rightarrow> scraped_item list \<Rightarrow> nat \<times> food_store" where
  "bulkImportFoodItems s items = (length items, foldl import_one s items)"

text \<open>\<open>getBasket\<close>: the caller's rows, the newest first.\<close>

definition getBasket :: "food_store \<Rightarrow> ident \<Rightarrow> basket_item list" where
  "getBasket s userId =
     rev (sort_key bi_createdAt (filter (\<lambda>b. bi_userId b = userId) (basketItem_rows s)))"

text \<open>\<open>updateBasketItem\<close>: the row of that id is rewritten; the \<open>userId\<close> argument is
  not used. The client throws when no row has the id.\<close>

definition updateBasketItem ::
  "food_store \<Rightarrow> ident \<Rightarrow> ident \<Rightarrow> real \<Rightarrow> real option \<Rightarrow> js_error + (basket_item \<times> food_store)" where
  "updateBasketItem s userId basketItemId quantity servingSize =
     (case find (\<lambda>b. bi_id b = basketItemId) (basketItem_rows s) of
        None \<Rightarrow> Inl record_not_found
      | Some item \<Rightarrow>
          (let updated = item\<lparr>bi_quantity := quantity,
                               bi_servingSize := (case servingSize of
                                                    None \<Rightarrow> bi_servingSize item
                                                  | Some v \<Rightarrow> v)\<rparr>
           in Inr (updated,
                   s\<lparr>basketItem_rows :=
                       map (\<lambda>b. if bi_id b = basketItemId then updated else b)
                         (basketItem_rows s)\<rparr>)))"

definition removeFromBasket ::
  "food_store \<Rightarrow> ident \<Rightarrow> ident \<Rightarrow> js_error + (basket_item \<times> food_store)" where
  "removeFromBasket s userId basketItemId =
     (case find (\<lambda>b. bi_id b = basketItemId) (basketItem_rows s) of
        None \<Rightarrow> Inl (Error ''Basket item not found or access denied'')
      | Some item \<Rightarrow>
          if bi_userId item \<noteq> userId
          then Inl (Error ''Basket item not found or access denied'')
          else Inr (item,
                    s\<lparr>basketItem_rows :=
                        filter (\<lambda>b. bi_id b \<noteq> basketItemId) (basketItem_rows s)\<rparr>))"

definition clearBasket :: "food_store \<Rightarrow> ident \<Rightarrow> food_store" where
  "clearBasket s userId =
     s\<lparr>basketItem_rows := filter (\<lambda>b. bi_userId b \<noteq> userId) (basketItem_rows s)\<rparr>"

section \<open>Double-precision arithmetic\<close>

text \<open>
  A JavaScript number is an IEEE 754 double. A finite double is the real it denotes;
  \<open>Infinity\<close>, \<open>-Infinity\<close> and \<open>NaN\<close> are all \<open>None\<close>, and the sign of a zero is
  dropped. A double has a significand of 53 bits: for \<open>2^e \<le> |x| < 2^(e+1)\<close> the
  doubles are the multiples of \<open>2^(e-52)\<close>, and below \<open>2^(-1022)\<close> those of
  \<open>2^(-1074)\<close>. An operation returns the double nearest to its exact result, a tie
  going to the even significand, and \<open>Infinity\<close> when that reaches \<open>2^1024\<close>.
\<close>

type_synonym number = "real option"

text \<open>The nearest integer, a tie going to the even one.\<close>

definition round_half_even :: "real \<Rightarrow> int" where
  "round_half_even x =
     (let f = \<lfloor>x\<rfloor>; d = x - real_of_int f
      in if d < 1 / 2 then f else if 1 / 2 < d then f + 1 else if even f then f else f + 1)"

text \<open>The exponent \<open>e\<close> of the binade of \<open>x\<close>: the least one from -1022, where the
  subnormal range ends, with \<open>|x| < 2^(e+1)\<close>; there is none from \<open>2^1024\<close> on.\<close>

definition double_exponent :: "real \<Rightarrow> int option" where
  "double_exponent x = find (\<lambda>e. \<bar>x\<bar> < 2 powi (e + 1)) [- 1022..1023]"

text \<open>The double nearest to an exact result.\<close>

definition to_double :: "real \<Rightarrow> number" where
  "to_double x =
     (case double_exponent x of
        None \<Rightarrow> None
      | Some e \<Rightarrow>
          (let ulp = 2 powi (e - 52);
               r = real_of_int (round_half_even (x / ulp)) * ulp
           in if 2 powi 1024 \<le> \<bar>r\<bar> then None else Some r))"

text \<open>\<open>a * b\<close> and \<open>a + b\<close>: a non-finite operand gives a non-finite result.\<close>

definition double_mul :: "number \<Rightarrow> number \<Rightarrow> number" where
  "double_mul a b =
     (case a of None \<Rightarrow> None
      | Some x \<Rightarrow> (case b of None \<Rightarrow> None | Some y \<Rightarrow> to_double (x * y)))"

definition double_add :: "number \<Rightarrow> number \<Rightarrow> number" where
  "double_add a b =
     (case a of None \<Rightarrow> None
      | Some x \<Rightarrow> (case b of None \<Rightarrow> None | Some y \<Rightarrow> to_double (x + y)))"

text \<open>\<open>a / d\<close> for a finite divisor \<open>d\<close>: a zero divisor gives \<open>Infinity\<close> or \<open>NaN\<close>.\<close>

definition double_div :: "number \<Rightarrow> real \<Rightarrow> number" where
  "double_div a d =
     (if d = 0 then None else (case a of None \<Rightarrow> None | Some x \<Rightarrow> to_double (x / d)))"

section \<open>Food controller\<close>

text \<open>The message a handler reports for a caught error: \<open>error.message || fallback\<close>.\<close>

definition message_or :: "js_error \<Rightarrow> string \<Rightarrow> string" where
  "message_or e fallback = (if err_message e = [] then fallback else err_message e)"

definition not_authenticated :: "'a response" where
  "not_authenticated = Failure ''Not authenticated'' 401 (Some ''AUTH_REQUIRED'')"

record search_query =
  q_search :: "string option"
  q_category :: "string option"
  q_page :: "string option"
  q_limit :: "string option"

text \<open>\<open>v ? parseInt(v) : undefined\<close>.\<close>

definition query_number :: "string option \<Rightarrow> int option" where
  "query_number v = (case v of None \<Rightarrow> None | Some x \<Rightarrow> if x = [] then None else parseInt x)"

text \<open>\<open>limit ? parseInt(limit) : 20\<close>, the limit handed to the scraper.\<close>

definition scrape_limit :: "string option \<Rightarrow> int option" where
  "scrape_limit v = (case v of None \<Rightarrow> Some 20 | Some x \<Rightarrow> if x = [] then Some 20 else parseInt x)"

text \<open>\<open>search && typeof search === 'string' && search.trim().length > 0\<close>.\<close>

definition has_text_query :: "string option \<Rightarrow> bool" where
  "has_text_query search = (case search of None \<Rightarrow> False | Some q \<Rightarrow> trim_nonempty q)"

text \<open>
  The handler of \<open>GET /food/items\<close>. The scraper reaches the network: what it returns
  or throws for a query and a limit is the parameter \<open>scrapeFoodItems\<close>. The handler
  returns the response, the store it leaves and the list of scraper calls it made.
\<close>

definition searchFoodItems_handler ::
  "(string \<Rightarrow> int option \<Rightarrow> js_error + scraped_item list) \<Rightarrow> food_store \<Rightarrow> ident option
     \<Rightarrow> search_query \<Rightarrow> search_result response \<times> food_store \<times> (string \<times> int option) list" where
  "searchFoodItems_handler scrapeFoodItems s user q =
     (case user of
        None \<Rightarrow> (not_authenticated, s, [])
      | Some u \<Rightarrow>
          (case searchFoodItems s (q_search q) (q_category q)
                  (query_number (q_page q)) (query_number (q_limit q)) of
             Inl e \<Rightarrow> (Failure (message_or e ''Failed to search food items'') 500 None, s, [])
           | Inr result \<Rightarrow>
               (case q_search q of
                  None \<Rightarrow> (Success result, s, [])
                | Some search \<Rightarrow>
                    if sr_items result = [] \<and> trim_nonempty search
                    then
                      (let calls = [(search, scrape_limit (q_limit q))]
                       in case scrapeFoodItems search (scrape_limit (q_limit q)) of
                            Inl scrapeError \<Rightarrow> (Success result, s, calls)
                          | Inr scrapedItems \<Rightarrow>
                              if scrapedItems \<noteq> []
                              then
                                (let s' = snd (bulkImportFoodItems s scrapedItems)
                                 in case searchFoodItems s' (q_search q) (q_category q)
                                           (query_number (q_page q))
                                           (query_number (q_limit q)) of
                                      Inl scrapeError \<Rightarrow> (Success result, s', calls)
                                    | Inr result' \<Rightarrow> (Success result', s', calls))
                              else (Success result, s, calls))
                    else (Success result, s, []))))"

definition updateBasketItem_handler ::
  "food_store \<Rightarrow> ident option \<Rightarrow> ident \<Rightarrow> real option \<Rightarrow> real option
     \<Rightarrow> basket_item response \<times> food_store" where
  "updateBasketItem_handler s user basketItemId quantity servingSize =
     (case user of
        None \<Rightarrow> (not_authenticated, s)
      | Some u \<Rightarrow>
          (case quantity of
             None \<Rightarrow> (Failure ''quantity is required'' 400 (Some ''VALIDATION_ERROR''), s)
           | Some qty \<Rightarrow>
               (case updateBasketItem s u basketItemId qty servingSize of
                  Inl e \<Rightarrow> (Failure (message_or e ''Failed to update basket item'') 500 None, s)
                | Inr (item, s') \<Rightarrow> (Success item, s'))))"

definition removeFromBasket_handler ::
  "food_store \<Rightarrow> ident option \<Rightarrow> ident \<Rightarrow> bool response \<times> food_store" where
  "removeFromBasket_handler s user basketItemId =
     (case user of
        None \<Rightarrow> (not_authenticated, s)
      | Some u \<Rightarrow>
          (case removeFromBasket s u basketItemId of
             Inl e \<Rightarrow>
               if str_includes (err_message e) ''not found''
               then (Failure (err_message e) 404 (Some ''NOT_FOUND''), s)
               else (Failure (message_or e ''Failed to remove from basket'') 500 None, s)
           | Inr (item, s') \<Rightarrow> (Success True, s')))"

text \<open>
  The totals of \<open>createMealFromBasket\<close>. The loop keeps four running totals; every
  product, quotient and sum is a double operation. The loop divides by the food item's
  own serving size; a zero there makes the multiplier \<open>Infinity\<close> or \<open>NaN\<close>.
\<close>

record totals =
  totalCalories :: number
  totalCarbs :: number
  totalProtein :: number
  totalFat :: number

definition add_basket_item :: "totals \<Rightarrow> basket_item \<Rightarrow> totals" where
  "add_basket_item t basketItem =
     (let foodItem = bi_foodItem basketItem;
          multiplier =
            double_div (double_mul (Some (bi_quantity basketItem))
                                   (Some (bi_servingSize basketItem)))
                       (fi_servingSize foodItem)
      in \<lparr>totalCalories =
            double_add (totalCalories t) (double_mul (Some (fi_calories foodItem)) multiplier),
          totalCarbs =
            double_add (totalCarbs t) (double_mul (Some (fi_carbs foodItem)) multiplier),
          totalProtein =
            double_add (totalProtein t) (double_mul (Some (fi_protein foodItem)) multiplier),
          totalFat =
            double_add (totalFat t) (double_mul (Some (fi_fat foodItem)) multiplier)\<rparr>)"

definition basket_totals :: "basket_item list \<Rightarrow> totals" where
  "basket_totals basket =
     foldl add_basket_item
       \<lparr>totalCalories = Some 0, totalCarbs = Some 0, totalProtein = Some 0,
        totalFat = Some 0\<rparr> basket"

fun join_comma :: "string list \<Rightarrow> string" where
  "join_comma [] = []"
| "join_comma [x] = x"
| "join_comma (x # y # ys) = x @ '', '' @ join_comma (y # ys)"

definition mealName :: "string list \<Rightarrow> string" where
  "mealName itemNames =
     (if length itemNames = 1 then hd itemNames
      else join_comma (take 2 itemNames) @
           (if length itemNames > 2
            then '' + '' @ string_of_nat (length itemNames - 2) @ '' more''
            else []))"

text \<open>\<open>Math.round(x * 10) / 10\<close>. \<open>Math.round\<close> of a double is exact: the
  doubles of magnitude \<open>2^52\<close> and more are integers.\<close>

definition round_tenth :: "number \<Rightarrow> number" where
  "round_tenth x =
     double_div (map_option (\<lambda>v. real_of_int (Math_round v)) (double_mul x (Some 10))) 10"

record meal_draft =
  md_name :: string
  md_type :: string
  md_calories :: "int option"
  md_carbs :: "real option"
  md_protein :: "real option"
  md_fat :: "real option"
  md_items :: "(string \<times> real \<times> real) list"

definition createMealFromBasket ::
  "food_store \<Rightarrow> ident option \<Rightarrow> string option \<Rightarrow> meal_draft response \<times> food_store" where
  "createMealFromBasket s user mealType =
     (case user of
        None \<Rightarrow> (not_authenticated, s)
      | Some u \<Rightarrow>
          (case mealType of
             None \<Rightarrow> (Failure ''mealType is required'' 400 (Some ''VALIDATION_ERROR''), s)
           | Some mt \<Rightarrow>
               if mt = []
               then (Failure ''mealType is required'' 400 (Some ''VALIDATION_ERROR''), s)
               else
                 (let basket = getBasket s u
                  in if length basket = 0
                     then (Failure ''Basket is empty'' 400 (Some ''VALIDATION_ERROR''), s)
                     else
                       (let t = basket_totals basket;
                            itemNames = map (\<lambda>b. fi_name (bi_foodItem b)) basket
                        in (Success
                              \<lparr>md_name = mealName itemNames,
                               md_type = mt,
                               md_calories = map_option Math_round (totalCalories t),
                               md_carbs = round_tenth (totalCarbs t),
                               md_protein = round_tenth (totalProtein t),
                               md_fat = round_tenth (totalFat t),
                               md_items = map (\<lambda>b. (fi_name (bi_foodItem b), bi_quantity b,
                                                     bi_servingSize b)) basket\<rparr>,
                            clearBasket s u)))))"

text \<open>
  What one basket item contributes to the total of a nutrient, and the sum of a list of
  such contributions, both in double arithmetic: the sum starts from 0 and adds the
  contributions from left to right.
\<close>

definition scaled_value :: "(food_item \<Rightarrow> real) \<Rightarrow> basket_item \<Rightarrow> number" where
  "scaled_value nutrient b =
     double_mul (Some (nutrient (bi_foodItem b)))
       (double_div (double_mul (Some (bi_quantity b)) (Some (bi_servingSize b)))
                   (fi_servingSize (bi_foodItem b)))"

definition double_sum :: "number list \<Rightarrow> number" where
  "double_sum xs = foldl double_add (Some 0) xs"

text \<open>The same sum in exact arithmetic: the formula
  \<open>\<Sum> value \<times> (quantity \<times> servingSize) / foodItem.servingSize\<close> read over the reals.\<close>

definition scaled_sum :: "(food_item \<Rightarrow> real) \<Rightarrow> basket_item list \<Rightarrow> real" where
  "scaled_sum nutrient basket =
     (\<Sum>b\<leftarrow>basket. nutrient (bi_foodItem b) *
                   ((bi_quantity b * bi_servingSize b) / fi_servingSize (bi_foodItem b)))"

section \<open>Example catalogs and baskets\<close>

definition example_food :: "ident \<Rightarrow> string \<Rightarrow> real \<Rightarrow> food_item" where
  "example_food i n cal =
     \<lparr>fi_id = i, fi_name = n, fi_description = None, fi_imageUrl = None,
      fi_calories = cal, fi_carbs = 0, fi_protein = 0, fi_fat = 0, fi_servingSize = 100,
      fi_servingUnit = ''g'', fi_category = None, fi_source = ''user-added'',
      fi_sourceUrl = None\<rparr>"

text \<open>User 10 holds two units of 100 g of a 100 kcal / 100 g food and one unit of
  50 g of a 50 kcal / 100 g food.\<close>

definition two_item_basket :: food_store where
  "two_item_basket =
     \<lparr>foodItem_rows = [example_food 1 ''dal'' 100, example_food 2 ''roti'' 50],
      basketItem_rows =
        [\<lparr>bi_id = 1, bi_userId = 10, bi_quantity = 2, bi_servingSize = 100, bi_createdAt = 5,
          bi_foodItem = example_food 1 ''dal'' 100\<rparr>,
         \<lparr>bi_id = 2, bi_userId = 10, bi_quantity = 1, bi_servingSize = 50, bi_createdAt = 6,
          bi_foodItem = example_food 2 ''roti'' 50\<rparr>],
      food_next_id = 3\<rparr>"

text \<open>User 10 holds one gram of a 50 kcal / 100 g food.\<close>

definition small_serving_basket :: food_store where
  "small_serving_basket =
     \<lparr>foodItem_rows = [example_food 2 ''roti'' 50],
      basketItem_rows =
        [\<lparr>bi_id = 1, bi_userId = 10, bi_quantity = 1, bi_servingSize = 1, bi_createdAt = 5,
          bi_foodItem = example_food 2 ''roti'' 50\<rparr>],
      food_next_id = 3\<rparr>"

text \<open>User 10 holds one unit of 150 g of a food of 21 kcal per 28 g.\<close>

definition uneven_serving_basket :: food_store where
  "uneven_serving_basket =
     \<lparr>foodItem_rows = [(example_food 3 ''paneer'' 21)\<lparr>fi_servingSize := 28\<rparr>],
      basketItem_rows =
        [\<lparr>bi_id = 1, bi_userId = 10, bi_quantity = 1, bi_servingSize = 150, bi_createdAt = 5,
          bi_foodItem = (example_food 3 ''paneer'' 21)\<lparr>fi_servingSize := 28\<rparr>\<rparr>],
      food_next_id = 4\<rparr>"

definition two_item_catalog :: food_store where
  "two_item_catalog =
     \<lparr>foodItem_rows = [example_food 1 ''dal'' 100, example_food 2 ''roti'' 50],
      basketItem_rows = [], food_next_id = 3\<rparr>"

text \<open>User 10 owns basket row 1; user 99 owns none.\<close>

definition owned_basket :: food_store where
  "owned_basket =
     \<lparr>foodItem_rows = [example_food 2 ''roti'' 50],
      basketItem_rows =
        [\<lparr>bi_id = 1, bi_userId = 10, bi_quantity = 1, bi_servingSize = 100, bi_createdAt = 5,
          bi_foodItem = example_food 2 ''roti'' 50\<rparr>],
      food_next_id = 3\<rparr>"

text \<open>A scraper whose request fails.\<close>

definition failing_scraper :: "string \<Rightarrow> int option \<Rightarrow> js_error + scraped_item list" where
  "failing_scraper query limit = Inl (Error ''timeout of 10000ms exceeded'')"

section \<open>Health service: the store\<close>

text \<open>
  An instant is a number of milliseconds; a date key \<open>YYYY-MM-DD\<close> is the number of
  its day, so that the order of the keys is the order of the days. Numeric columns are
  integers. Workouts and water entries are left out; the functions below do not touch
  them.
\<close>

record meal =
  meal_id :: ident
  meal_dailyHealthDataId :: ident
  meal_type :: string
  meal_name :: string
  meal_calories :: int
  meal_carbs :: real
  meal_protein :: real
  meal_fat :: real
  meal_timestamp :: int

record fasting_session =
  fs_id :: ident
  fs_dailyHealthDataId :: ident
  fs_type :: string
  fs_startTime :: int
  fs_endTime :: "int option"
  fs_duration :: int
  fs_targetDuration :: "int option"
  fs_eatingWindowStart :: "int option"
  fs_eatingWindowEnd :: "int option"

record daily_health_data =
  dhd_id :: ident
  dhd_userId :: ident
  dhd_date :: int
  caloriesConsumed :: int
  caloriesBurned :: int
  activeEnergyBurned :: "int option"
  dietaryEnergyConsumed :: "int option"
  heartRate :: "int option"
  restingHeartRate :: "int option"
  steps :: int
  waterIntake :: int
  dhd_createdAt :: int

record health_store =
  dailyHealthData_rows :: "daily_health_data list"
  meal_rows :: "meal list"
  fastingSession_rows :: "fasting_session list"
  health_next_id :: ident

text \<open>A daily row with the children \<open>include\<close> attaches to it.\<close>

record daily_view =
  dv_row :: daily_health_data
  dv_meals :: "meal list"
  dv_fastingSession :: "fasting_session option"

text \<open>The zeroed aggregate the mutators create when the day has no row.\<close>

definition zeroed_daily :: "ident \<Rightarrow> ident \<Rightarrow> int \<Rightarrow> int \<Rightarrow> daily_health_data" where
  "zeroed_daily new_id userId date now =
     \<lparr>dhd_id = new_id, dhd_userId = userId, dhd_date = date,
      caloriesConsumed = 0, caloriesBurned = 0,
      activeEnergyBurned = None, dietaryEnergyConsumed = None,
      heartRate = None, restingHeartRate = None,
      steps = 0, waterIntake = 0, dhd_createdAt = now\<rparr>"

definition meals_of :: "health_store \<Rightarrow> ident \<Rightarrow> meal list" where
  "meals_of s dailyId = filter (\<lambda>m. meal_dailyHealthDataId m = dailyId) (meal_rows s)"

definition session_of :: "health_store \<Rightarrow> ident \<Rightarrow> fasting_session option" where
  "session_of s dailyId =
     find (\<lambda>f. fs_dailyHealthDataId f = dailyId) (fastingSession_rows s)"

text \<open>The \<open>include\<close> of \<open>getDailyHealthData\<close> orders the meals by timestamp; the one of
  \<open>getWeeklyHealthData\<close> does not order them.\<close>

definition daily_view_of :: "health_store \<Rightarrow> daily_health_data \<Rightarrow> daily_view" where
  "daily_view_of s d =
     \<lparr>dv_row = d,
      dv_meals = sort_key meal_timestamp (meals_of s (dhd_id d)),
      dv_fastingSession = session_of s (dhd_id d)\<rparr>"

definition weekly_view_of :: "health_store \<Rightarrow> daily_health_data \<Rightarrow> daily_view" where
  "weekly_view_of s d =
     \<lparr>dv_row = d,
      dv_meals = meals_of s (dhd_id d),
      dv_fastingSession = session_of s (dhd_id d)\<rparr>"

text \<open>\<open>dailyHealthData.findUnique({ where: { userId_date } })\<close>.\<close>

definition find_daily :: "health_store \<Rightarrow> ident \<Rightarrow> int \<Rightarrow> daily_health_data option" where
  "find_daily s userId date =
     find (\<lambda>d. dhd_userId d = userId \<and> dhd_date d = date) (dailyHealthData_rows s)"

definition read_daily :: "health_store \<Rightarrow> ident \<Rightarrow> int \<Rightarrow> daily_view option" where
  "read_daily s userId date = map_option (daily_view_of s) (find_daily s userId date)"

text \<open>
  An update or upsert whose \<open>where\<close> is a unique key other than the id: the key
  resolves to the row that the unique lookup finds, and that row is rewritten. The
  unique index lets at most one row have the key. On a table that holds the key more
  than once the lookup and the update alike resolve it to the first such row.
\<close>

fun rewrite_first :: "('a \<Rightarrow> bool) \<Rightarrow> ('a \<Rightarrow> 'a) \<Rightarrow> 'a list \<Rightarrow> 'a list" where
  "rewrite_first P g [] = []"
| "rewrite_first P g (x # xs) = (if P x then g x # xs else x # rewrite_first P g xs)"

section \<open>Health service: reading, with fasting auto-completion\<close>

text \<open>\<open>(now.getTime() - startTime.getTime()) / (1000 * 60 * 60)\<close>.\<close>

definition elapsedHours :: "int \<Rightarrow> int \<Rightarrow> real" where
  "elapsedHours now startTime = real_of_int (now - startTime) / (1000 * 60 * 60)"

text \<open>
  The test of the read path on a session: it has no end time, its target duration is
  neither null nor zero, and the elapsed hours have reached the target. Then the session
  of that id is to be updated with the target as its duration.
\<close>

definition pending_completion :: "int \<Rightarrow> fasting_session \<Rightarrow> (ident \<times> int) option" where
  "pending_completion now fs =
     (case fs_targetDuration fs of
        None \<Rightarrow> None
      | Some t \<Rightarrow>
          if fs_endTime fs = None \<and> t \<noteq> 0 \<and> real_of_int t \<le> elapsedHours now (fs_startTime fs)
          then Some (fs_id fs, t)
          else None)"

text \<open>\<open>fastingSession.update({ where: { id }, data: { endTime: now, duration } })\<close>.\<close>

definition completed :: "int \<Rightarrow> ident \<times> int \<Rightarrow> fasting_session \<Rightarrow> fasting_session" where
  "completed now upd f =
     (if fs_id f = fst upd then f\<lparr>fs_endTime := Some now, fs_duration := snd upd\<rparr> else f)"

definition complete_session ::
  "int \<Rightarrow> fasting_session list \<Rightarrow> ident \<times> int \<Rightarrow> fasting_session list" where
  "complete_session now rows upd = map (completed now upd) rows"

definition getDailyHealthData ::
  "health_store \<Rightarrow> int \<Rightarrow> ident \<Rightarrow> int \<Rightarrow> daily_view option \<times> health_store" where
  "getDailyHealthData s now userId date =
     (case read_daily s userId date of
        None \<Rightarrow> (None, s)
      | Some data \<Rightarrow>
          (case dv_fastingSession data of
             None \<Rightarrow> (Some data, s)
           | Some fs \<Rightarrow>
               (case pending_completion now fs of
                  None \<Rightarrow> (Some data, s)
                | Some upd \<Rightarrow>
                    (let s' = s\<lparr>fastingSession_rows :=
                                 complete_session now (fastingSession_rows s) upd\<rparr>
                     in (read_daily s' userId date, s')))))"

definition week_views :: "health_store \<Rightarrow> ident \<Rightarrow> int list \<Rightarrow> daily_view list" where
  "week_views s userId dates =
     map (weekly_view_of s)
       (sort_key dhd_date
          (filter (\<lambda>d. dhd_userId d = userId \<and> dhd_date d \<in> set dates)
             (dailyHealthData_rows s)))"

text \<open>The updates the weekly read issues, one for each session that passes the test.\<close>

definition pending_completions :: "int \<Rightarrow> daily_view list \<Rightarrow> (ident \<times> int) list" where
  "pending_completions now views =
     List.map_filter
       (\<lambda>v. case dv_fastingSession v of None \<Rightarrow> None | Some fs \<Rightarrow> pending_completion now fs)
       views"

text \<open>
  The weekly read first lists seven date keys: for \<open>i\<close> from 0 to 6 it copies the
  start date, moves the copy by \<open>setDate(getDate() + i)\<close>, which counts days in the
  local time of the host, and takes the day of \<open>toISOString()\<close>, which is the day in
  UTC. Which keys come out depends on the time zone of the host: across a change of
  daylight-saving time a key can be listed twice and the seventh day be missing. The
  list the loop builds from a start date is therefore the parameter \<open>week_dates\<close>;
  the start date is one the host can parse.
\<close>

definition getWeeklyHealthData ::
  "(int \<Rightarrow> int list) \<Rightarrow> health_store \<Rightarrow> int \<Rightarrow> ident \<Rightarrow> int
     \<Rightarrow> daily_view list \<times> health_store" where
  "getWeeklyHealthData week_dates s now userId startDate =
     (let dates = week_dates startDate;
          data = week_views s userId dates;
          updates = pending_completions now data
      in if length updates > 0
         then
           (let s' = s\<lparr>fastingSession_rows :=
                        foldl (complete_session now) (fastingSession_rows s) updates\<rparr>
            in (week_views s' userId dates, s'))
         else (data, s))"

section \<open>Health service: meals\<close>

text \<open>The pattern that opens the mutators: read the day and create a zeroed row when
  there is none. The created row has no children.\<close>

definition daily_or_create ::
  "health_store \<Rightarrow> int \<Rightarrow> ident \<Rightarrow> int \<Rightarrow> daily_view \<times> health_store" where
  "daily_or_create s now userId date =
     (case getDailyHealthData s now userId date of
        (Some data, s1) \<Rightarrow> (data, s1)
      | (None, s1) \<Rightarrow>
          (let d = zeroed_daily (health_next_id s1) userId date now
           in (\<lparr>dv_row = d, dv_meals = [], dv_fastingSession = None\<rparr>,
               s1\<lparr>dailyHealthData_rows := dailyHealthData_rows s1 @ [d],
                  health_next_id := Suc (health_next_id s1)\<rparr>)))"

text \<open>The body of \<open>addMeal\<close>.\<close>

record meal_input =
  mi_type :: string
  mi_name :: string
  mi_calories :: int
  mi_carbs :: real
  mi_protein :: real
  mi_fat :: real
  mi_timestamp :: int

text \<open>The body of \<open>updateMeal\<close>; a field that is not sent is \<open>None\<close>.\<close>

record meal_patch =
  mp_type :: "string option"
  mp_name :: "string option"
  mp_calories :: "int option"
  mp_carbs :: "real option"
  mp_protein :: "real option"
  mp_fat :: "real option"
  mp_timestamp :: "int option"

text \<open>\<open>dailyHealthData.update({ where: { id }, data: { caloriesConsumed } })\<close>, the new
  value computed from the stored row.\<close>

definition set_caloriesConsumed ::
  "ident \<Rightarrow> (daily_health_data \<Rightarrow> int) \<Rightarrow> daily_health_data list \<Rightarrow> daily_health_data list" where
  "set_caloriesConsumed dailyId v rows =
     map (\<lambda>d. if dhd_id d = dailyId then d\<lparr>caloriesConsumed := v d\<rparr> else d) rows"

definition addMeal ::
  "health_store \<Rightarrow> int \<Rightarrow> ident \<Rightarrow> int \<Rightarrow> meal_input \<Rightarrow> meal \<times> health_store" where
  "addMeal s now userId date mealData =
     (case daily_or_create s now userId date of
        (dailyData, s1) \<Rightarrow>
          (let meal = \<lparr>meal_id = health_next_id s1,
                       meal_dailyHealthDataId = dhd_id (dv_row dailyData),
                       meal_type = mi_type mealData,
                       meal_name = mi_name mealData,
                       meal_calories = mi_calories mealData,
                       meal_carbs = mi_carbs mealData,
                       meal_protein = mi_protein mealData,
                       meal_fat = mi_fat mealData,
                       meal_timestamp = mi_timestamp mealData\<rparr>
           in (meal,
               s1\<lparr>meal_rows := meal_rows s1 @ [meal],
                  health_next_id := Suc (health_next_id s1),
                  dailyHealthData_rows :=
                    set_caloriesConsumed (dhd_id (dv_row dailyData))
                      (\<lambda>d. caloriesConsumed d + mi_calories mealData)
                      (dailyHealthData_rows s1)\<rparr>)))"

text \<open>The \<open>data\<close> of \<open>meal.update\<close>: a field that is \<open>undefined\<close> is left as it is.\<close>

definition apply_meal_patch :: "meal_patch \<Rightarrow> meal \<Rightarrow> meal" where
  "apply_meal_patch p m =
     m\<lparr>meal_type := (case mp_type p of None \<Rightarrow> meal_type m | Some v \<Rightarrow> v),
       meal_name := (case mp_name p of None \<Rightarrow> meal_name m | Some v \<Rightarrow> v),
       meal_calories := (case mp_calories p of None \<Rightarrow> meal_calories m | Some v \<Rightarrow> v),
       meal_carbs := (case mp_carbs p of None \<Rightarrow> meal_carbs m | Some v \<Rightarrow> v),
       meal_protein := (case mp_protein p of None \<Rightarrow> meal_protein m | Some v \<Rightarrow> v),
       meal_fat := (case mp_fat p of None \<Rightarrow> meal_fat m | Some v \<Rightarrow> v),
       meal_timestamp := (case mp_timestamp p of None \<Rightarrow> meal_timestamp m | Some v \<Rightarrow> v)\<rparr>"

definition updateMeal ::
  "health_store \<Rightarrow> ident \<Rightarrow> meal_patch \<Rightarrow> (js_error + meal) \<times> health_store" where
  "updateMeal s mealId mealData =
     (case find (\<lambda>m. meal_id m = mealId) (meal_rows s) of
        None \<Rightarrow> (Inl (Error ''Meal not found''), s)
      | Some meal \<Rightarrow>
          (let oldCalories = meal_calories meal;
               newCalories = or_default (mp_calories mealData) oldCalories;
               s1 = s\<lparr>meal_rows :=
                        map (\<lambda>m. if meal_id m = mealId then apply_meal_patch mealData m else m)
                          (meal_rows s)\<rparr>
           in if oldCalories \<noteq> newCalories
              then
                (case find (\<lambda>d. dhd_id d = meal_dailyHealthDataId meal)
                        (dailyHealthData_rows s1) of
                   None \<Rightarrow> (Inr (apply_meal_patch mealData meal), s1)
                 | Some dailyData \<Rightarrow>
                     (Inr (apply_meal_patch mealData meal),
                      s1\<lparr>dailyHealthData_rows :=
                           set_caloriesConsumed (meal_dailyHealthDataId meal)
                             (\<lambda>d. caloriesConsumed dailyData - oldCalories + newCalories)
                             (dailyHealthData_rows s1)\<rparr>))
              else (Inr (apply_meal_patch mealData meal), s1)))"

definition deleteMeal :: "health_store \<Rightarrow> ident \<Rightarrow> (js_error + bool) \<times> health_store" where
  "deleteMeal s mealId =
     (case find (\<lambda>m. meal_id m = mealId) (meal_rows s) of
        None \<Rightarrow> (Inl (Error ''Meal not found''), s)
      | Some meal \<Rightarrow>
          (let s1 = s\<lparr>meal_rows := filter (\<lambda>m. meal_id m \<noteq> mealId) (meal_rows s)\<rparr>
           in case find (\<lambda>d. dhd_id d = meal_dailyHealthDataId meal)
                     (dailyHealthData_rows s1) of
                None \<Rightarrow> (Inr True, s1)
              | Some dailyData \<Rightarrow>
                  (Inr True,
                   s1\<lparr>dailyHealthData_rows :=
                        set_caloriesConsumed (meal_dailyHealthDataId meal)
                          (\<lambda>d. max 0 (caloriesConsumed dailyData - meal_calories meal))
                          (dailyHealthData_rows s1)\<rparr>)))"

text \<open>The stored total of a day and the sum over its stored meals.\<close>

definition stored_caloriesConsumed :: "health_store \<Rightarrow> ident \<Rightarrow> int \<Rightarrow> int option" where
  "stored_caloriesConsumed s userId date = map_option caloriesConsumed (find_daily s userId date)"

definition meals_calories :: "health_store \<Rightarrow> ident \<Rightarrow> int \<Rightarrow> int option" where
  "meals_calories s userId date =
     map_option (\<lambda>d. sum_list (map meal_calories (meals_of s (dhd_id d))))
       (find_daily s userId date)"

section \<open>Health service: the fasting session\<close>

definition active_session_exists :: js_error where
  "active_session_exists =
     Error (''An active fasting session already exists. '' @
            ''Please end the current session before starting a new one.'')"

text \<open>\<open>x ? Math.round(x) : null\<close> on an optional number.\<close>

definition rounded_target :: "real option \<Rightarrow> int option" where
  "rounded_target x =
     (case x of None \<Rightarrow> None | Some t \<Rightarrow> if t = 0 then None else Some (Math_round t))"

text \<open>
  The columns \<open>duration\<close> and \<open>targetDuration\<close> are \<open>Int\<close>, a signed integer of 32
  bits. The client refuses to write a value outside that range; the functions below
  catch what it throws and throw an error of their own with its message, which is given
  in short.
\<close>

definition fits_int32 :: "int \<Rightarrow> bool" where
  "fits_int32 v = (- 2147483648 \<le> v \<and> v \<le> 2147483647)"

definition value_out_of_range :: js_error where
  "value_out_of_range =
     Error ''Unable to fit integer value into an INT4 (32-bit signed integer).''"

definition session_fits :: "fasting_session \<Rightarrow> bool" where
  "session_fits f =
     (fits_int32 (fs_duration f)
      \<and> (case fs_targetDuration f of None \<Rightarrow> True | Some t \<Rightarrow> fits_int32 t))"

text \<open>
  \<open>fastingSession.create\<close>. A day has at most one session row (the relation is
  one-to-one and \<open>saveFastingSession\<close> upserts by \<open>dailyHealthDataId\<close>), so a second
  row for the same day violates the unique key.
\<close>

definition create_fastingSession ::
  "health_store \<Rightarrow> fasting_session \<Rightarrow> js_error + health_store" where
  "create_fastingSession s row =
     (if session_fits row
      then
        (case session_of s (fs_dailyHealthDataId row) of
           Some other \<Rightarrow> Inl unique_constraint_failed
         | None \<Rightarrow>
             Inr (s\<lparr>fastingSession_rows := fastingSession_rows s @ [row],
                    health_next_id := Suc (health_next_id s)\<rparr>))
      else Inl value_out_of_range)"

definition startFastingSession ::
  "health_store \<Rightarrow> int \<Rightarrow> ident \<Rightarrow> int \<Rightarrow> string \<Rightarrow> real option \<Rightarrow> int option \<Rightarrow> int option
     \<Rightarrow> (js_error + fasting_session) \<times> health_store" where
  "startFastingSession s now userId date type targetDuration eatingWindowStart eatingWindowEnd =
     (case daily_or_create s now userId date of
        (dailyData, s1) \<Rightarrow>
          if (case dv_fastingSession dailyData of
                None \<Rightarrow> False
              | Some fs \<Rightarrow> fs_endTime fs = None)
          then (Inl active_session_exists, s1)
          else
            (let row = \<lparr>fs_id = health_next_id s1,
                        fs_dailyHealthDataId = dhd_id (dv_row dailyData),
                        fs_type = type,
                        fs_startTime = now,
                        fs_endTime = None,
                        fs_duration = 0,
                        fs_targetDuration = rounded_target targetDuration,
                        fs_eatingWindowStart = eatingWindowStart,
                        fs_eatingWindowEnd = eatingWindowEnd\<rparr>
             in case create_fastingSession s1 row of
                  Inl error \<Rightarrow>
                    (Inl (Error (''Failed to start fasting session: '' @ err_message error)), s1)
                | Inr s2 \<Rightarrow> (Inr row, s2)))"

definition endFastingSession ::
  "health_store \<Rightarrow> int \<Rightarrow> ident \<Rightarrow> int \<Rightarrow> (js_error + fasting_session) \<times> health_store" where
  "endFastingSession s now userId date =
     (case getDailyHealthData s now userId date of
        (None, s1) \<Rightarrow> (Inl (Error ''Daily health data not found''), s1)
      | (Some dailyData, s1) \<Rightarrow>
          (case dv_fastingSession dailyData of
             None \<Rightarrow> (Inl (Error ''No active fasting session found''), s1)
           | Some fs \<Rightarrow>
               if fs_endTime fs \<noteq> None
               then (Inl (Error ''Fasting session has already ended''), s1)
               else
                 (let durationValue = Math_round (elapsedHours now (fs_startTime fs))
                  in if fits_int32 durationValue
                     then (Inr (fs\<lparr>fs_endTime := Some now, fs_duration := durationValue\<rparr>),
                           s1\<lparr>fastingSession_rows :=
                                complete_session now (fastingSession_rows s1)
                                  (fs_id fs, durationValue)\<rparr>)
                     else (Inl (Error (''Failed to end fasting session: '' @
                                       err_message value_out_of_range)), s1))))"

text \<open>The body of \<open>saveFastingSession\<close>; \<open>startTime\<close> and \<open>endTime\<close> are the instants
  their date strings denote.\<close>

record session_input =
  si_type :: "string option"
  si_startTime :: "int option"
  si_endTime :: "int option"
  si_duration :: "real option"
  si_targetDuration :: "real option"
  si_eatingWindowStart :: "int option"
  si_eatingWindowEnd :: "int option"

text \<open>A number that is neither \<open>undefined\<close> nor zero.\<close>

definition truthy :: "real option \<Rightarrow> bool" where
  "truthy x = (case x of None \<Rightarrow> False | Some v \<Rightarrow> v \<noteq> 0)"

text \<open>
  The end time and the duration \<open>saveFastingSession\<close> computes before rounding, from
  the body and the start instant.
\<close>

definition computed_session :: "int \<Rightarrow> int \<Rightarrow> session_input \<Rightarrow> int option \<times> real" where
  "computed_session now startTime sessionData =
     (let duration = (case si_duration sessionData of None \<Rightarrow> 0 | Some d \<Rightarrow> d);
          endTime = si_endTime sessionData;
          target = (case si_targetDuration sessionData of None \<Rightarrow> 0 | Some t \<Rightarrow> t)
      in if endTime = None \<and> truthy (si_targetDuration sessionData)
         then
           (if elapsedHours now startTime \<ge> target
            then (Some now, target)
            else (None, elapsedHours now startTime))
         else if truthy (si_targetDuration sessionData) \<and> duration > target
         then (endTime, target)
         else (endTime, duration))"

text \<open>\<open>duration < 0.5 ? 1 : Math.round(duration)\<close>.\<close>

definition durationValue :: "real \<Rightarrow> int" where
  "durationValue duration = (if duration < 0.5 then 1 else Math_round duration)"

text \<open>
  \<open>fastingSession.upsert({ where: { dailyHealthDataId }, update, create })\<close>. The two
  branches write the same fields, given as the function \<open>write\<close>; the created row takes
  a fresh id.
\<close>

definition upsert_fastingSession ::
  "health_store \<Rightarrow> ident \<Rightarrow> (fasting_session \<Rightarrow> fasting_session)
     \<Rightarrow> js_error + fasting_session \<times> health_store" where
  "upsert_fastingSession s dailyId write =
     (case session_of s dailyId of
        Some stored \<Rightarrow>
          if session_fits (write stored)
          then Inr (write stored,
                    s\<lparr>fastingSession_rows :=
                        rewrite_first (\<lambda>f. fs_dailyHealthDataId f = dailyId) write
                          (fastingSession_rows s)\<rparr>)
          else Inl value_out_of_range
      | None \<Rightarrow>
          (let row = write \<lparr>fs_id = health_next_id s,
                           fs_dailyHealthDataId = dailyId,
                           fs_type = [],
                           fs_startTime = 0,
                           fs_endTime = None,
                           fs_duration = 0,
                           fs_targetDuration = None,
                           fs_eatingWindowStart = None,
                           fs_eatingWindowEnd = None\<rparr>
           in if session_fits row
              then Inr (row,
                        s\<lparr>fastingSession_rows := fastingSession_rows s @ [row],
                          health_next_id := Suc (health_next_id s)\<rparr>)
              else Inl value_out_of_range))"

definition saveFastingSession ::
  "health_store \<Rightarrow> int \<Rightarrow> ident \<Rightarrow> int \<Rightarrow> session_input
     \<Rightarrow> (js_error + fasting_session) \<times> health_store" where
  "saveFastingSession s now userId date sessionData =
     (case (si_type sessionData, si_startTime sessionData) of
        (Some type, Some startTime) \<Rightarrow>
          if type = []
          then (Inl (Error ''Missing required fields: type and startTime are required''), s)
          else
            (case daily_or_create s now userId date of
               (dailyData, s1) \<Rightarrow>
                 (case computed_session now startTime sessionData of
                    (endTime, duration) \<Rightarrow>
                      (let write = (\<lambda>f. f\<lparr>fs_type := type,
                                           fs_startTime := startTime,
                                           fs_endTime := endTime,
                                           fs_duration := durationValue duration,
                                           fs_targetDuration :=
                                             rounded_target (si_targetDuration sessionData),
                                           fs_eatingWindowStart := si_eatingWindowStart sessionData,
                                           fs_eatingWindowEnd := si_eatingWindowEnd sessionData\<rparr>)
                       in case upsert_fastingSession s1 (dhd_id (dv_row dailyData)) write of
                            Inl error \<Rightarrow>
                              (Inl (Error (''Failed to save fasting session: '' @
                                           err_message error)), s1)
                          | Inr (result, s2) \<Rightarrow> (Inr result, s2))))
      | _ \<Rightarrow> (Inl (Error ''Missing required fields: type and startTime are required''), s))"

section \<open>Health service: saving the daily totals\<close>

text \<open>The body of \<open>saveDailyHealthData\<close>; a field that is not sent is \<open>None\<close>.\<close>

record daily_input =
  di_date :: int
  di_caloriesConsumed :: "int option"
  di_caloriesBurned :: "int option"
  di_activeEnergyBurned :: "int option"
  di_dietaryEnergyConsumed :: "int option"
  di_heartRate :: "int option"
  di_restingHeartRate :: "int option"
  di_steps :: "int option"
  di_waterIntake :: "int option"

text \<open>The \<open>update\<close> data: the four totals default to 0, the other fields are left as
  they are when not sent.\<close>

definition write_daily :: "daily_input \<Rightarrow> daily_health_data \<Rightarrow> daily_health_data" where
  "write_daily data d =
     d\<lparr>caloriesConsumed := (case di_caloriesConsumed data of None \<Rightarrow> 0 | Some v \<Rightarrow> v),
       caloriesBurned := (case di_caloriesBurned data of None \<Rightarrow> 0 | Some v \<Rightarrow> v),
       activeEnergyBurned :=
         (case di_activeEnergyBurned data of None \<Rightarrow> activeEnergyBurned d | Some v \<Rightarrow> Some v),
       dietaryEnergyConsumed :=
         (case di_dietaryEnergyConsumed data of
            None \<Rightarrow> dietaryEnergyConsumed d | Some v \<Rightarrow> Some v),
       heartRate := (case di_heartRate data of None \<Rightarrow> heartRate d | Some v \<Rightarrow> Some v),
       restingHeartRate :=
         (case di_restingHeartRate data of None \<Rightarrow> restingHeartRate d | Some v \<Rightarrow> Some v),
       steps := (case di_steps data of None \<Rightarrow> 0 | Some v \<Rightarrow> v),
       waterIntake := (case di_waterIntake data of None \<Rightarrow> 0 | Some v \<Rightarrow> v)\<rparr>"

text \<open>\<open>dailyHealthData.update\<close> of the row of an id; the client throws when the table
  has no such row.\<close>

definition update_daily ::
  "health_store \<Rightarrow> ident \<Rightarrow> daily_input \<Rightarrow> (js_error + daily_health_data) \<times> health_store" where
  "update_daily s dailyId data =
     (case find (\<lambda>d. dhd_id d = dailyId) (dailyHealthData_rows s) of
        None \<Rightarrow> (Inl record_not_found, s)
      | Some d \<Rightarrow>
          (Inr (write_daily data d),
           s\<lparr>dailyHealthData_rows :=
               map (\<lambda>r. if dhd_id r = dailyId then write_daily data r else r)
                 (dailyHealthData_rows s)\<rparr>))"

text \<open>\<open>dailyHealthData.update({ where: { userId_date } })\<close>; the client throws when
  no row has the key.\<close>

definition update_daily_by_key ::
  "health_store \<Rightarrow> ident \<Rightarrow> int \<Rightarrow> daily_input
     \<Rightarrow> (js_error + daily_health_data) \<times> health_store" where
  "update_daily_by_key s userId date data =
     (case find_daily s userId date of
        None \<Rightarrow> (Inl record_not_found, s)
      | Some d \<Rightarrow>
          (Inr (write_daily data d),
           s\<lparr>dailyHealthData_rows :=
               rewrite_first (\<lambda>r. dhd_userId r = userId \<and> dhd_date r = date)
                 (write_daily data) (dailyHealthData_rows s)\<rparr>))"

text \<open>\<open>dailyHealthData.upsert\<close> by the key \<open>(userId, date)\<close>.\<close>

definition upsert_daily ::
  "health_store \<Rightarrow> int \<Rightarrow> ident \<Rightarrow> daily_input \<Rightarrow> (js_error + daily_health_data) \<times> health_store" where
  "upsert_daily s now userId data =
     (case find_daily s userId (di_date data) of
        Some d \<Rightarrow> update_daily_by_key s userId (di_date data) data
      | None \<Rightarrow>
          (let d = write_daily data (zeroed_daily (health_next_id s) userId (di_date data) now)
           in (Inr d,
               s\<lparr>dailyHealthData_rows := dailyHealthData_rows s @ [d],
                 health_next_id := Suc (health_next_id s)\<rparr>)))"

text \<open>\<open>error.code === 'P2002' || error.message?.includes('Unique constraint')\<close>.\<close>

definition is_unique_violation :: "js_error \<Rightarrow> bool" where
  "is_unique_violation error =
     (err_code error = Some ''P2002'' \<or> str_includes (err_message error) ''Unique constraint'')"

text \<open>\<open>findMany({ where: { userId, date }, orderBy: { createdAt: 'asc' } })\<close>.\<close>

definition duplicates_of :: "health_store \<Rightarrow> ident \<Rightarrow> int \<Rightarrow> daily_health_data list" where
  "duplicates_of s userId date =
     sort_key dhd_createdAt
       (filter (\<lambda>d. dhd_userId d = userId \<and> dhd_date d = date) (dailyHealthData_rows s))"

text \<open>
  \<open>saveDailyHealthData\<close>. The upsert fails when a concurrent request writes the same
  key, so the failure is an input: \<open>fault\<close> is what the upsert throws, if anything, and
  \<open>s\<close> is the store the catch path then works on. On a uniqueness violation the catch
  path looks the key up in the store and, when a row is found, updates by the key. Only
  when the lookup finds nothing does it scan for the rows of the key in creation order,
  delete all but the first and update the first by its id; when the scan finds nothing
  either, the error is thrown again, as is every other error.
\<close>

definition saveDailyHealthData ::
  "health_store \<Rightarrow> int \<Rightarrow> ident \<Rightarrow> daily_input \<Rightarrow> js_error option
     \<Rightarrow> (js_error + daily_health_data) \<times> health_store" where
  "saveDailyHealthData s now userId data fault =
     (case fault of
        None \<Rightarrow> upsert_daily s now userId data
      | Some error \<Rightarrow>
          if is_unique_violation error
          then
            (case find_daily s userId (di_date data) of
               Some existing \<Rightarrow> update_daily_by_key s userId (di_date data) data
             | None \<Rightarrow>
                 (case duplicates_of s userId (di_date data) of
                    [] \<Rightarrow> (Inl error, s)
                  | toKeep # toDelete \<Rightarrow>
                      (let s1 = (if length toDelete > 0
                                 then s\<lparr>dailyHealthData_rows :=
                                          filter (\<lambda>d. dhd_id d \<notin> set (map dhd_id toDelete))
                                            (dailyHealthData_rows s)\<rparr>
                                 else s)
                       in update_daily s1 (dhd_id toKeep) data)))
          else (Inl error, s))"

section \<open>Example days\<close>

definition empty_health :: health_store where
  "empty_health =
     \<lparr>dailyHealthData_rows = [], meal_rows = [], fastingSession_rows = [],
      health_next_id = 1\<rparr>"

definition lunch :: meal_input where
  "lunch = \<lparr>mi_type = ''lunch'', mi_name = ''dal'', mi_calories = 100, mi_carbs = 10,
            mi_protein = 5, mi_fat = 1, mi_timestamp = 1000\<rparr>"

definition calories_patch :: "int \<Rightarrow> meal_patch" where
  "calories_patch c =
     \<lparr>mp_type = None, mp_name = None, mp_calories = Some c, mp_carbs = None,
      mp_protein = None, mp_fat = None, mp_timestamp = None\<rparr>"

text \<open>The keys the week loop lists on a host whose time zone is UTC: the seven days
  from the start day.\<close>

definition utc_week_dates :: "int \<Rightarrow> int list" where
  "utc_week_dates startDate = map (\<lambda>i. startDate + int i) [0..<7]"

text \<open>Day 19000 of user 7 with one fasting session that started at instant 0.\<close>

definition fasting_day :: "int option \<Rightarrow> int \<Rightarrow> int option \<Rightarrow> health_store" where
  "fasting_day endTime duration target =
     \<lparr>dailyHealthData_rows = [zeroed_daily 1 7 19000 0],
      meal_rows = [],
      fastingSession_rows =
        [\<lparr>fs_id = 2, fs_dailyHealthDataId = 1, fs_type = ''16:8'', fs_startTime = 0,
          fs_endTime = endTime, fs_duration = duration, fs_targetDuration = target,
          fs_eatingWindowStart = None, fs_eatingWindowEnd = None\<rparr>],
      health_next_id = 3\<rparr>"

definition hours :: "int \<Rightarrow> int" where
  "hours n = n * 3600000"

definition session_body ::
  "int \<Rightarrow> int option \<Rightarrow> real option \<Rightarrow> real option \<Rightarrow> session_input" where
  "session_body startTime endTime duration target =
     \<lparr>si_type = Some ''16:8'', si_startTime = Some startTime, si_endTime = endTime,
      si_duration = duration, si_targetDuration = target,
      si_eatingWindowStart = None, si_eatingWindowEnd = None\<rparr>"

text \<open>Two rows for day 19000 of user 7; the row stored first was created later.\<close>

definition duplicated_day :: health_store where
  "duplicated_day =
     \<lparr>dailyHealthData_rows = [zeroed_daily 1 7 19000 200, zeroed_daily 2 7 19000 100],
      meal_rows = [], fastingSession_rows = [], health_next_id = 3\<rparr>"

definition totals_body :: daily_input where
  "totals_body =
     \<lparr>di_date = 19000, di_caloriesConsumed = Some 500, di_caloriesBurned = None,
      di_activeEnergyBurned = None, di_dietaryEnergyConsumed = None, di_heartRate = None,
      di_restingHeartRate = None, di_steps = Some 4000, di_waterIntake = None\<rparr>"

section \<open>Sequences of meal operations\<close>

datatype meal_op =
    AddMeal ident int meal_input
  | UpdateMeal ident meal_patch
  | DeleteMeal ident

text \<open>One operation on the store; an operation that fails with \<open>Meal not found\<close>
  leaves the store as it is.\<close>

fun apply_meal_op :: "int \<Rightarrow> health_store \<Rightarrow> meal_op \<Rightarrow> health_store" where
  "apply_meal_op now s (AddMeal userId date mealData) = snd (addMeal s now userId date mealData)"
| "apply_meal_op now s (UpdateMeal mealId mealData) = snd (updateMeal s mealId mealData)"
| "apply_meal_op now s (DeleteMeal mealId) = snd (deleteMeal s mealId)"

text \<open>Operations with non-negative calories whose updates do not send the value 0.\<close>

fun plain_meal_op :: "meal_op \<Rightarrow> bool" where
  "plain_meal_op (AddMeal userId date mealData) = (0 \<le> mi_calories mealData)"
| "plain_meal_op (UpdateMeal mealId mealData) =
     (case mp_calories mealData of None \<Rightarrow> True | Some c \<Rightarrow> 0 < c)"
| "plain_meal_op (DeleteMeal mealId) = True"

text \<open>
  The state the mutators keep: ids are unique and below the id counter, every meal has
  non-negative calories, and every day row stores the sum of the calories of its meals.
\<close>

definition meals_consistent :: "health_store \<Rightarrow> bool" where
  "meals_consistent s =
     (distinct (map meal_id (meal_rows s)) \<and>
      distinct (map dhd_id (dailyHealthData_rows s)) \<and>
      list_all (\<lambda>m. meal_id m < health_next_id s \<and> meal_dailyHealthDataId m < health_next_id s
                    \<and> 0 \<le> meal_calories m) (meal_rows s) \<and>
      list_all (\<lambda>d. dhd_id d < health_next_id s \<and>
                    caloriesConsumed d = sum_list (map meal_calories (meals_of s (dhd_id d))))
        (dailyHealthData_rows s))"

section \<open>Feed service: the like counter\<close>

lemma find_increment_likesCount:
  "find (\<lambda>p. post_id p = postId \<and> Q (post_visibility p) (post_userId p))
        (increment_likesCount q d rows)
   = map_option (\<lambda>p. if post_id p = q then p\<lparr>likesCount := likesCount p + d\<rparr> else p)
       (find (\<lambda>p. post_id p = postId \<and> Q (post_visibility p) (post_userId p)) rows)"
  by (induction rows) (auto simp: increment_likesCount_def)

lemma accessible_after_toggleLike:
  assumes "toggleLike s p u = Inr (b, s')"
  shows "getAccessiblePost s' p u \<noteq> None"
proof -
  from assms have acc: "getAccessiblePost s p u \<noteq> None"
    by (auto simp: toggleLike_def split: option.splits)
  from assms have fr: "friend_rows s' = friend_rows s"
    and rows: "\<exists>d. feedPost_rows s' = increment_likesCount p d (feedPost_rows s)"
    by (auto simp: toggleLike_def split: option.splits if_splits)
  then obtain d where d: "feedPost_rows s' = increment_likesCount p d (feedPost_rows s)"
    by blast
  show ?thesis
    using acc
    unfolding getAccessiblePost_def getFriendUids_def Let_def fr d
    using find_increment_likesCount [of p
        "\<lambda>v w. v = ''public'' \<or>
           (v = ''friends'' \<and> w \<in> set (u # map snd (filter (\<lambda>r. fst r = u) (friend_rows s))))"
        p d "feedPost_rows s"]
    by simp
qed

lemma likesCount_of_increment:
  "likesCount_of (s\<lparr>feedPostLike_rows := ls,
                    feedPost_rows := increment_likesCount p d (feedPost_rows s)\<rparr>) p
     = map_option (\<lambda>k. k + d) (likesCount_of s p)"
proof -
  have "find (\<lambda>x. post_id x = p) (increment_likesCount p d rows)
        = map_option (\<lambda>x. x\<lparr>likesCount := likesCount x + d\<rparr>) (find (\<lambda>x. post_id x = p) rows)"
    for rows
    by (induction rows) (auto simp: increment_likesCount_def)
  then show ?thesis
    by (simp add: likesCount_of_def option.map_comp comp_def)
qed

lemma toggleLike_step:
  assumes "getAccessiblePost s p u \<noteq> None" and "likesCount_of s p = Some k"
  shows "\<exists>s'. toggleLike s p u = Inr ((p, u) \<notin> set (feedPostLike_rows s), s')
           \<and> likesCount_of s' p =
               Some (if (p, u) \<in> set (feedPostLike_rows s) then k - 1 else k + 1)
           \<and> ((p, u) \<in> set (feedPostLike_rows s') \<longleftrightarrow> (p, u) \<notin> set (feedPostLike_rows s))"
  using assms
  by (auto simp: toggleLike_def likesCount_of_increment split: option.splits)

lemma toggleLike_times_general:
  assumes "getAccessiblePost s p u \<noteq> None" and "likesCount_of s p = Some k"
  shows "\<exists>s'. toggleLike_times n s p u
                 = Inr (alternating ((p, u) \<notin> set (feedPostLike_rows s)) n, s')
           \<and> likesCount_of s' p =
               Some (k + count_flag True (alternating ((p, u) \<notin> set (feedPostLike_rows s)) n)
                       - count_flag False (alternating ((p, u) \<notin> set (feedPostLike_rows s)) n))"
  using assms
proof (induction n arbitrary: s k)
  case 0
  then show ?case by (simp add: count_flag_def)
next
  case (Suc n)
  from toggleLike_step [OF Suc.prems] obtain s1 where
    step: "toggleLike s p u = Inr ((p, u) \<notin> set (feedPostLike_rows s), s1)"
    and cnt: "likesCount_of s1 p =
                Some (if (p, u) \<in> set (feedPostLike_rows s) then k - 1 else k + 1)"
    and mem: "(p, u) \<in> set (feedPostLike_rows s1) \<longleftrightarrow> (p, u) \<notin> set (feedPostLike_rows s)"
    by blast
  have acc1: "getAccessiblePost s1 p u \<noteq> None"
    using accessible_after_toggleLike [OF step] .
  from Suc.IH [OF acc1 cnt] obtain s2 where
    rest: "toggleLike_times n s1 p u
             = Inr (alternating ((p, u) \<notin> set (feedPostLike_rows s1)) n, s2)"
    and cnt2: "likesCount_of s2 p =
       Some ((if (p, u) \<in> set (feedPostLike_rows s) then k - 1 else k + 1)
             + count_flag True (alternating ((p, u) \<notin> set (feedPostLike_rows s1)) n)
             - count_flag False (alternating ((p, u) \<notin> set (feedPostLike_rows s1)) n))"
    by blast
  show ?case
    using step rest cnt2 mem by (auto simp: count_flag_def)
qed

lemma alternating_balance:
  "count_flag True (alternating True n) - count_flag False (alternating True n)
     = (if even n then 0 else 1)"
  by (induction n rule: induct_nat_012) (auto simp: count_flag_def)

text \<open>
  Claim C9. One user toggles the like of one post the user can access, \<open>n\<close> times,
  starting from a state in which the user has not liked the post and the post's counter
  is \<open>k \<ge> 0\<close> (\<open>0\<close> for a post nobody else has liked). Every call succeeds, the
  returned flags are \<open>true, false, true, \<dots>\<close>, and after the \<open>n\<close> calls (so after
  each call) the stored counter is \<open>k\<close> plus the number of \<open>true\<close> results minus the
  number of \<open>false\<close> results, which is never negative.
\<close>

theorem toggleLike_alternates_and_counts:
  assumes "getAccessiblePost s p u \<noteq> None"
    and "(p, u) \<notin> set (feedPostLike_rows s)"
    and "likesCount_of s p = Some k"
    and "0 \<le> k"
  shows "\<exists>rs s'. toggleLike_times n s p u = Inr (rs, s')
           \<and> rs = alternating True n
           \<and> likesCount_of s' p = Some (k + (count_flag True rs - count_flag False rs))
           \<and> 0 \<le> count_flag True rs - count_flag False rs
           \<and> 0 \<le> k + (count_flag True rs - count_flag False rs)"
proof -
  from toggleLike_times_general [OF assms(1) assms(3), of n] assms(2)
  obtain s' where run: "toggleLike_times n s p u = Inr (alternating True n, s')"
    and cnt: "likesCount_of s' p =
      Some (k + count_flag True (alternating True n) - count_flag False (alternating True n))"
    by auto
  have bal: "0 \<le> count_flag True (alternating True n) - count_flag False (alternating True n)"
    by (simp add: alternating_balance)
  show ?thesis
    using run cnt bal assms(4) by (simp add: algebra_simps)
qed

theorem toggleLike_alternates_and_counts_witness:
  "\<exists>s'. toggleLike_times 3
          \<lparr>friend_rows = [],
           feedPost_rows = [\<lparr>post_id = 1, post_userId = 7, post_visibility = ''public'',
                             likesCount = 0\<rparr>],
           feedPostLike_rows = []\<rparr> 1 2 = Inr ([True, False, True], s')
        \<and> likesCount_of s' 1 = Some 1"
  using toggleLike_alternates_and_counts [of
      "\<lparr>friend_rows = [],
        feedPost_rows = [\<lparr>post_id = 1, post_userId = 7, post_visibility = ''public'',
                          likesCount = 0\<rparr>],
        feedPostLike_rows = []\<rparr>" 1 2 0 3]
  by (simp add: getAccessiblePost_def likesCount_of_def count_flag_def eval_nat_numeral)

section \<open>Food controller: the basket-to-meal conversion\<close>

subsection \<open>Evaluating the double arithmetic\<close>

lemma find_upto_first:
  fixes a b e :: int
  assumes "a \<le> e" and "e \<le> b" and "P e" and "\<And>k. a \<le> k \<Longrightarrow> k < e \<Longrightarrow> \<not> P k"
  shows "find P [a..b] = Some e"
proof -
  let ?i = "nat (e - a)"
  have len: "?i < length [a..b]" using assms(1,2) by simp
  have at: "[a..b] ! ?i = e" using assms(1,2) by simp
  have before: "\<not> P ([a..b] ! j)" if "j < ?i" for j
  proof -
    have "[a..b] ! j = a + int j" using that assms(1,2) by simp
    moreover have "a \<le> a + int j" "a + int j < e" using that by linarith+
    ultimately show ?thesis using assms(4) by simp
  qed
  show ?thesis
    unfolding find_Some_iff
    using len at assms(3) before by (intro exI [of _ ?i]) auto
qed

lemma double_exponent_eq:
  assumes lo: "2 powi e \<le> \<bar>x\<bar>" and hi: "\<bar>x\<bar> < 2 powi (e + 1)"
    and "- 1022 \<le> e" and "e \<le> 1023"
  shows "double_exponent x = Some e"
  unfolding double_exponent_def
proof (rule find_upto_first [where P = "\<lambda>e. \<bar>x\<bar> < 2 powi (e + 1)", OF assms(3,4) hi])
  fix k :: int
  assume "k < e"
  then have "k + 1 \<le> e" by simp
  then have "(2::real) powi (k + 1) \<le> 2 powi e"
    by (intro power_int_increasing) simp_all
  then show "\<not> \<bar>x\<bar> < 2 powi (k + 1)" using lo by linarith
qed

lemma double_exponent_zero: "double_exponent 0 = Some (- 1022)"
  unfolding double_exponent_def
  by (rule find_upto_first) simp_all

lemma round_half_even_upper: "real_of_int (round_half_even x) \<le> x + 1 / 2"
  unfolding round_half_even_def Let_def by (simp split: if_splits) linarith

lemma round_half_even_lower: "x - 1 / 2 \<le> real_of_int (round_half_even x)"
  unfolding round_half_even_def Let_def by (simp split: if_splits) linarith

lemma round_half_even_abs_le:
  assumes "\<bar>x\<bar> \<le> real_of_int n"
  shows "\<bar>real_of_int (round_half_even x)\<bar> \<le> real_of_int n"
proof -
  have u: "real_of_int (round_half_even x) \<le> real_of_int n + 1 / 2"
    using round_half_even_upper [of x] assms by linarith
  have l: "- real_of_int n - 1 / 2 \<le> real_of_int (round_half_even x)"
    using round_half_even_lower [of x] assms by linarith
  have "round_half_even x \<le> n" using u by linarith
  moreover have "- n \<le> round_half_even x" using l by linarith
  ultimately show ?thesis by linarith
qed

text \<open>In a binade below the largest one the rounding cannot overflow, and the double
  of \<open>x\<close> is the nearest multiple of the binade's unit.\<close>

lemma to_double_binade:
  assumes lo: "2 powi e \<le> \<bar>x\<bar>" and hi: "\<bar>x\<bar> < 2 powi (e + 1)"
    and "- 1022 \<le> e" and "e \<le> 1022"
  shows "to_double x =
           Some (real_of_int (round_half_even (x / 2 powi (e - 52))) * 2 powi (e - 52))"
proof -
  have b: "double_exponent x = Some e"
    using lo hi assms(3) by (rule double_exponent_eq) (use assms(4) in simp)
  let ?ulp = "(2::real) powi (e - 52)"
  have up: "0 < ?ulp" by simp
  have q: "\<bar>x / ?ulp\<bar> \<le> real_of_int (2 ^ 53)"
  proof -
    have "\<bar>x / ?ulp\<bar> = \<bar>x\<bar> / ?ulp" using up by simp
    also have "\<dots> \<le> 2 powi (e + 1) / ?ulp"
      using hi up by (intro divide_right_mono) simp_all
    also have "\<dots> = 2 powi ((e + 1) - (e - 52))"
      by (rule power_int_diff [symmetric]) simp
    also have "(e + 1) - (e - 52) = 53" by simp
    also have "(2::real) powi 53 = real_of_int (2 ^ 53)" by simp
    finally show ?thesis .
  qed
  have r: "\<bar>real_of_int (round_half_even (x / ?ulp))\<bar> \<le> real_of_int (2 ^ 53)"
    using q by (rule round_half_even_abs_le)
  have "\<bar>real_of_int (round_half_even (x / ?ulp)) * ?ulp\<bar>
          = \<bar>real_of_int (round_half_even (x / ?ulp))\<bar> * ?ulp"
    using up by (simp add: abs_mult)
  also have "\<dots> \<le> real_of_int (2 ^ 53) * ?ulp"
    using r up by (simp add: mult_right_mono)
  also have "\<dots> = 2 powi 53 * ?ulp" by simp
  also have "\<dots> = 2 powi (53 + (e - 52))"
    by (rule power_int_add [symmetric]) simp
  also have "\<dots> \<le> 2 powi 1023"
    by (rule power_int_increasing) (use assms(4) in simp_all)
  also have "\<dots> < 2 powi 1024"
    by (rule power_int_strict_increasing) simp_all
  finally have "\<not> 2 powi 1024 \<le> \<bar>real_of_int (round_half_even (x / ?ulp)) * ?ulp\<bar>"
    by simp
  then show ?thesis
    unfolding to_double_def Let_def b by simp
qed

lemma to_double_zero: "to_double 0 = Some 0"
  by (simp add: to_double_def double_exponent_zero round_half_even_def)

text \<open>The rules that evaluate the doubles of the examples: one rule for each binade
  from \<open>2^(-7)\<close> to \<open>2^7\<close>.\<close>

lemmas double_eval =
  to_double_zero round_half_even_def double_mul_def double_add_def double_div_def
  to_double_binade [where e = "- 7"] to_double_binade [where e = "- 6"]
  to_double_binade [where e = "- 5"] to_double_binade [where e = "- 4"]
  to_double_binade [where e = "- 3"] to_double_binade [where e = "- 2"]
  to_double_binade [where e = "- 1"] to_double_binade [where e = 0]
  to_double_binade [where e = 1] to_double_binade [where e = 2]
  to_double_binade [where e = 3] to_double_binade [where e = 4]
  to_double_binade [where e = 5] to_double_binade [where e = 6]
  to_double_binade [where e = 7]

subsection \<open>The totals of the loop\<close>

lemma foldl_add_basket_item:
  "foldl add_basket_item t basket =
     \<lparr>totalCalories =
        foldl double_add (totalCalories t) (map (scaled_value fi_calories) basket),
      totalCarbs = foldl double_add (totalCarbs t) (map (scaled_value fi_carbs) basket),
      totalProtein =
        foldl double_add (totalProtein t) (map (scaled_value fi_protein) basket),
      totalFat = foldl double_add (totalFat t) (map (scaled_value fi_fat) basket)\<rparr>"
proof (induction basket arbitrary: t)
  case Nil
  then show ?case by simp
next
  case (Cons b basket)
  show ?case
    unfolding foldl_Cons list.map Cons.IH
    by (simp add: add_basket_item_def Let_def scaled_value_def)
qed

lemma basket_totals_sum:
  "basket_totals basket =
     \<lparr>totalCalories = double_sum (map (scaled_value fi_calories) basket),
      totalCarbs = double_sum (map (scaled_value fi_carbs) basket),
      totalProtein = double_sum (map (scaled_value fi_protein) basket),
      totalFat = double_sum (map (scaled_value fi_fat) basket)\<rparr>"
  unfolding basket_totals_def double_sum_def foldl_add_basket_item by simp

lemma getBasket_clearBasket: "getBasket (clearBasket s u) u = []"
  by (simp add: getBasket_def clearBasket_def)

lemma createMealFromBasket_empty:
  assumes "getBasket s u = []" and "mt \<noteq> []"
  shows "createMealFromBasket s (Some u) (Some mt)
           = (Failure ''Basket is empty'' 400 (Some ''VALIDATION_ERROR''), s)"
  using assms by (simp add: createMealFromBasket_def)

lemma createMealFromBasket_nonempty:
  assumes "getBasket s u \<noteq> []" and "mt \<noteq> []"
  shows "createMealFromBasket s (Some u) (Some mt)
           = (Success
                \<lparr>md_name = mealName (map (\<lambda>b. fi_name (bi_foodItem b)) (getBasket s u)),
                 md_type = mt,
                 md_calories =
                   map_option Math_round
                     (double_sum (map (scaled_value fi_calories) (getBasket s u))),
                 md_carbs =
                   round_tenth (double_sum (map (scaled_value fi_carbs) (getBasket s u))),
                 md_protein =
                   round_tenth (double_sum (map (scaled_value fi_protein) (getBasket s u))),
                 md_fat =
                   round_tenth (double_sum (map (scaled_value fi_fat) (getBasket s u))),
                 md_items = map (\<lambda>b. (fi_name (bi_foodItem b), bi_quantity b,
                                       bi_servingSize b)) (getBasket s u)\<rparr>,
              clearBasket s u)"
  using assms by (simp add: createMealFromBasket_def Let_def basket_totals_sum)

text \<open>
  Claim C5, as amended. An authenticated caller names a meal type. On an empty basket
  the handler answers 400 \<open>VALIDATION_ERROR\<close> and leaves the store as it was. On a
  non-empty basket it answers with a meal draft. Its calories are \<open>Math.round\<close> of the
  sum, taken in double arithmetic over the items in basket order, of
  \<open>value \<times> ((quantity \<times> servingSize) / foodItem.servingSize)\<close>; its carbs, protein and
  fat are that sum times ten, rounded by \<open>Math.round\<close>, and divided by ten, again in
  double arithmetic; a sum that is not finite is reported as such. The caller's basket
  is empty afterwards, and the same request on the store it leaves answers 400
  \<open>VALIDATION_ERROR\<close>.
\<close>

theorem createMealFromBasket_totals:
  assumes "mt \<noteq> []"
  shows "(getBasket s u = [] \<longrightarrow>
            createMealFromBasket s (Some u) (Some mt)
              = (Failure ''Basket is empty'' 400 (Some ''VALIDATION_ERROR''), s))
       \<and> (getBasket s u \<noteq> [] \<longrightarrow>
            (\<exists>d s'. createMealFromBasket s (Some u) (Some mt) = (Success d, s')
               \<and> md_calories d
                   = map_option Math_round
                       (double_sum (map (scaled_value fi_calories) (getBasket s u)))
               \<and> md_carbs d
                   = round_tenth (double_sum (map (scaled_value fi_carbs) (getBasket s u)))
               \<and> md_protein d
                   = round_tenth (double_sum (map (scaled_value fi_protein) (getBasket s u)))
               \<and> md_fat d
                   = round_tenth (double_sum (map (scaled_value fi_fat) (getBasket s u)))
               \<and> getBasket s' u = []
               \<and> createMealFromBasket s' (Some u) (Some mt)
                   = (Failure ''Basket is empty'' 400 (Some ''VALIDATION_ERROR''), s')))"
proof (intro conjI impI)
  assume "getBasket s u = []"
  then show "createMealFromBasket s (Some u) (Some mt)
              = (Failure ''Basket is empty'' 400 (Some ''VALIDATION_ERROR''), s)"
    using assms by (rule createMealFromBasket_empty)
next
  assume ne: "getBasket s u \<noteq> []"
  have again: "createMealFromBasket (clearBasket s u) (Some u) (Some mt)
                 = (Failure ''Basket is empty'' 400 (Some ''VALIDATION_ERROR''),
                    clearBasket s u)"
    using getBasket_clearBasket assms by (rule createMealFromBasket_empty)
  show "\<exists>d s'. createMealFromBasket s (Some u) (Some mt) = (Success d, s')
               \<and> md_calories d
                   = map_option Math_round
                       (double_sum (map (scaled_value fi_calories) (getBasket s u)))
               \<and> md_carbs d
                   = round_tenth (double_sum (map (scaled_value fi_carbs) (getBasket s u)))
               \<and> md_protein d
                   = round_tenth (double_sum (map (scaled_value fi_protein) (getBasket s u)))
               \<and> md_fat d
                   = round_tenth (double_sum (map (scaled_value fi_fat) (getBasket s u)))
               \<and> getBasket s' u = []
               \<and> createMealFromBasket s' (Some u) (Some mt)
                   = (Failure ''Basket is empty'' 400 (Some ''VALIDATION_ERROR''), s')"
    using ne assms again
    by (simp add: createMealFromBasket_def Let_def basket_totals_sum getBasket_clearBasket)
qed

text \<open>The two-item example: 25 + 200 = 225 kcal, every operation exact.\<close>

theorem createMealFromBasket_totals_witness:
  "(\<exists>d s'. createMealFromBasket two_item_basket (Some 10) (Some ''lunch'') = (Success d, s')
       \<and> md_calories d = Some 225
       \<and> getBasket s' 10 = []
       \<and> createMealFromBasket s' (Some 10) (Some ''lunch'')
            = (Failure ''Basket is empty'' 400 (Some ''VALIDATION_ERROR''), s'))
   \<and> createMealFromBasket (clearBasket two_item_basket 10) (Some 10) (Some ''lunch'')
        = (Failure ''Basket is empty'' 400 (Some ''VALIDATION_ERROR''),
           clearBasket two_item_basket 10)"
proof -
  have b: "getBasket two_item_basket 10 =
             [\<lparr>bi_id = 2, bi_userId = 10, bi_quantity = 1, bi_servingSize = 50, bi_createdAt = 6,
               bi_foodItem = example_food 2 ''roti'' 50\<rparr>,
              \<lparr>bi_id = 1, bi_userId = 10, bi_quantity = 2, bi_servingSize = 100, bi_createdAt = 5,
               bi_foodItem = example_food 1 ''dal'' 100\<rparr>]"
    by (simp add: getBasket_def two_item_basket_def)
  have c: "double_sum (map (scaled_value fi_calories) (getBasket two_item_basket 10))
             = Some 225"
    unfolding b
    by (simp add: double_sum_def scaled_value_def example_food_def double_eval)
  have e: "getBasket (clearBasket two_item_basket 10) 10 = []"
    by (simp add: getBasket_def clearBasket_def)
  have m: "''lunch'' \<noteq> []" by simp
  from createMealFromBasket_totals [OF m, of two_item_basket 10]
       createMealFromBasket_totals [OF m, of "clearBasket two_item_basket 10" 10]
  show ?thesis
    unfolding e c by (auto simp: b Math_round_def)
qed

text \<open>The claim as stated fails: one gram of a 50 kcal / 100 g food sums to half a
  kilocalorie, in double arithmetic as over the reals, and the draft reports 1.\<close>

theorem createMealFromBasket_rounds_counterexample:
  "fst (createMealFromBasket small_serving_basket (Some 10) (Some ''snack''))
     = Success \<lparr>md_name = ''roti'', md_type = ''snack'', md_calories = Some 1,
                md_carbs = Some 0, md_protein = Some 0, md_fat = Some 0,
                md_items = [(''roti'', 1, 1)]\<rparr>
   \<and> double_sum (map (scaled_value fi_calories) (getBasket small_serving_basket 10))
       = Some (1 / 2)
   \<and> scaled_sum fi_calories (getBasket small_serving_basket 10) = 1 / 2"
proof -
  have b: "getBasket small_serving_basket 10 =
             [\<lparr>bi_id = 1, bi_userId = 10, bi_quantity = 1, bi_servingSize = 1, bi_createdAt = 5,
               bi_foodItem = example_food 2 ''roti'' 50\<rparr>]"
    by (simp add: getBasket_def small_serving_basket_def)
  have t: "basket_totals (getBasket small_serving_basket 10)
             = \<lparr>totalCalories = Some (1 / 2), totalCarbs = Some 0, totalProtein = Some 0,
                totalFat = Some 0\<rparr>"
    unfolding b
    by (simp add: basket_totals_def add_basket_item_def Let_def example_food_def double_eval)
  have c: "double_sum (map (scaled_value fi_calories) (getBasket small_serving_basket 10))
             = Some (1 / 2)"
    using t unfolding basket_totals_sum by simp
  have z: "double_sum (map (scaled_value fi_carbs) (getBasket small_serving_basket 10)) = Some 0"
    "double_sum (map (scaled_value fi_protein) (getBasket small_serving_basket 10)) = Some 0"
    "double_sum (map (scaled_value fi_fat) (getBasket small_serving_basket 10)) = Some 0"
    using t unfolding basket_totals_sum by simp_all
  have ne: "getBasket small_serving_basket 10 \<noteq> []" unfolding b by simp
  have m: "''snack'' \<noteq> []" by simp
  have r: "round_tenth (Some 0) = Some 0"
    by (simp add: round_tenth_def Math_round_def double_eval)
  have x: "scaled_sum fi_calories (getBasket small_serving_basket 10) = 1 / 2"
    unfolding b by (simp add: scaled_sum_def example_food_def)
  have "fst (createMealFromBasket small_serving_basket (Some 10) (Some ''snack''))
     = Success \<lparr>md_name = ''roti'', md_type = ''snack'', md_calories = Some 1,
                md_carbs = Some 0, md_protein = Some 0, md_fat = Some 0,
                md_items = [(''roti'', 1, 1)]\<rparr>"
    unfolding createMealFromBasket_nonempty [OF ne m] c z
    by (simp add: b r example_food_def Math_round_def mealName_def)
  then show ?thesis using c x by simp
qed

text \<open>
  The double arithmetic shows in the result. One unit of 150 g of a food of 21 kcal per
  28 g is 112.5 kcal over the reals, which \<open>Math.round\<close> would take to 113; the loop's
  quotient and product are rounded to doubles, the total falls just below 112.5, and
  the draft reports 112.
\<close>

lemma createMealFromBasket_double_rounding:
  "fst (createMealFromBasket uneven_serving_basket (Some 10) (Some ''snack''))
     = Success \<lparr>md_name = ''paneer'', md_type = ''snack'', md_calories = Some 112,
                md_carbs = Some 0, md_protein = Some 0, md_fat = Some 0,
                md_items = [(''paneer'', 1, 150)]\<rparr>
   \<and> double_sum (map (scaled_value fi_calories) (getBasket uneven_serving_basket 10))
       = Some (7916483719987199 / 2 ^ 46)
   \<and> Math_round (scaled_sum fi_calories (getBasket uneven_serving_basket 10)) = 113"
proof -
  have b: "getBasket uneven_serving_basket 10 =
             [\<lparr>bi_id = 1, bi_userId = 10, bi_quantity = 1, bi_servingSize = 150,
               bi_createdAt = 5,
               bi_foodItem = (example_food 3 ''paneer'' 21)\<lparr>fi_servingSize := 28\<rparr>\<rparr>]"
    by (simp add: getBasket_def uneven_serving_basket_def)
  have t: "basket_totals (getBasket uneven_serving_basket 10)
             = \<lparr>totalCalories = Some (7916483719987199 / 2 ^ 46), totalCarbs = Some 0,
                totalProtein = Some 0, totalFat = Some 0\<rparr>"
    unfolding b
    by (simp add: basket_totals_def add_basket_item_def Let_def example_food_def double_eval)
  have c: "double_sum (map (scaled_value fi_calories) (getBasket uneven_serving_basket 10))
             = Some (7916483719987199 / 2 ^ 46)"
    using t unfolding basket_totals_sum by simp
  have z: "double_sum (map (scaled_value fi_carbs) (getBasket uneven_serving_basket 10)) = Some 0"
    "double_sum (map (scaled_value fi_protein) (getBasket uneven_serving_basket 10)) = Some 0"
    "double_sum (map (scaled_value fi_fat) (getBasket uneven_serving_basket 10)) = Some 0"
    using t unfolding basket_totals_sum by simp_all
  have ne: "getBasket uneven_serving_basket 10 \<noteq> []" unfolding b by simp
  have m: "''snack'' \<noteq> []" by simp
  have r: "round_tenth (Some 0) = Some 0"
    by (simp add: round_tenth_def Math_round_def double_eval)
  have x: "Math_round (scaled_sum fi_calories (getBasket uneven_serving_basket 10)) = 113"
    unfolding b by (simp add: scaled_sum_def example_food_def Math_round_def)
  have "fst (createMealFromBasket uneven_serving_basket (Some 10) (Some ''snack''))
     = Success \<lparr>md_name = ''paneer'', md_type = ''snack'', md_calories = Some 112,
                md_carbs = Some 0, md_protein = Some 0, md_fat = Some 0,
                md_items = [(''paneer'', 1, 150)]\<rparr>"
    unfolding createMealFromBasket_nonempty [OF ne m] c z
    by (simp add: b r example_food_def Math_round_def mealName_def)
  then show ?thesis using c x by simp
qed

section \<open>Food controller: search with a fetch on a miss\<close>

text \<open>
  Claim C7. For an authenticated search the handler first runs the local search
  \<open>found\<close> on the store as it is. It calls the scraper exactly when that search
  succeeded with no items and the request carries a text query that is not blank; when
  the local search fails no call is made. When the scraper is called and throws, or
  returns no items (its own request failed and was caught there), the handler answers
  with success carrying the empty local result, and the store is unchanged.
\<close>

theorem searchFoodItems_handler_fetch:
  fixes scrape s u q
  defines "found \<equiv> searchFoodItems s (q_search q) (q_category q)
                      (query_number (q_page q)) (query_number (q_limit q))"
    and "out \<equiv> searchFoodItems_handler scrape s (Some u) q"
  shows "(snd (snd out) \<noteq> [] \<longleftrightarrow>
            (\<exists>r. found = Inr r \<and> sr_items r = []) \<and> has_text_query (q_search q))
       \<and> (\<forall>r search.
            found = Inr r \<and> sr_items r = [] \<and> q_search q = Some search \<and> trim_nonempty search
              \<and> ((\<exists>e. scrape search (scrape_limit (q_limit q)) = Inl e)
                   \<or> scrape search (scrape_limit (q_limit q)) = Inr [])
            \<longrightarrow> out = (Success r, s, [(search, scrape_limit (q_limit q))]))
       \<and> (\<forall>r. found = Inr r \<and> \<not> (sr_items r = [] \<and> has_text_query (q_search q))
            \<longrightarrow> out = (Success r, s, []))
       \<and> (\<forall>e. found = Inl e \<longrightarrow> snd out = (s, []))"
  unfolding found_def out_def
  by (auto simp: searchFoodItems_handler_def has_text_query_def Let_def
           split: sum.splits option.splits)

theorem searchFoodItems_handler_fetch_witness:
  "searchFoodItems_handler failing_scraper two_item_catalog (Some 10)
       \<lparr>q_search = Some ''idli'', q_category = None, q_page = None, q_limit = None\<rparr>
     = (Success \<lparr>sr_items = [], sr_total = 0, sr_page = 1, sr_limit = 20, sr_totalPages = 0\<rparr>,
        two_item_catalog, [(''idli'', Some 20)])
   \<and> searchFoodItems_handler failing_scraper two_item_catalog (Some 10)
       \<lparr>q_search = Some ''DAL'', q_category = None, q_page = None, q_limit = None\<rparr>
     = (Success \<lparr>sr_items = [example_food 1 ''dal'' 100], sr_total = 1, sr_page = 1,
                 sr_limit = 20, sr_totalPages = 1\<rparr>,
        two_item_catalog, [])
   \<and> snd (searchFoodItems_handler failing_scraper two_item_catalog (Some 10)
       \<lparr>q_search = Some ''idli'', q_category = None, q_page = Some ''-1'', q_limit = None\<rparr>)
     = (two_item_catalog, [])"
proof -
  let ?q1 = "\<lparr>q_search = Some ''idli'', q_category = None, q_page = None, q_limit = None\<rparr>"
  let ?q2 = "\<lparr>q_search = Some ''DAL'', q_category = None, q_page = None, q_limit = None\<rparr>"
  let ?q3 = "\<lparr>q_search = Some ''idli'', q_category = None, q_page = Some ''-1'',
              q_limit = None\<rparr>"
  have f1: "searchFoodItems two_item_catalog (q_search ?q1) (q_category ?q1)
              (query_number (q_page ?q1)) (query_number (q_limit ?q1))
            = Inr \<lparr>sr_items = [], sr_total = 0, sr_page = 1, sr_limit = 20, sr_totalPages = 0\<rparr>"
    by (simp add: searchFoodItems_def Let_def or_default_def skip_take_def two_item_catalog_def
          search_where_def example_food_def query_number_def toLowerCase_def
          toLowerCase_char_def)
  have f2: "searchFoodItems two_item_catalog (q_search ?q2) (q_category ?q2)
              (query_number (q_page ?q2)) (query_number (q_limit ?q2))
            = Inr \<lparr>sr_items = [example_food 1 ''dal'' 100], sr_total = 1, sr_page = 1,
                   sr_limit = 20, sr_totalPages = 1\<rparr>"
    by (simp add: searchFoodItems_def Let_def or_default_def skip_take_def two_item_catalog_def
          search_where_def example_food_def query_number_def toLowerCase_def
          toLowerCase_char_def ceiling_def)
  have f3: "searchFoodItems two_item_catalog (q_search ?q3) (q_category ?q3)
              (query_number (q_page ?q3)) (query_number (q_limit ?q3))
            = Inl invalid_skip"
    by (simp add: searchFoodItems_def Let_def or_default_def skip_take_def query_number_def
          parseInt_def parse_unsigned_def digit_value_def is_white_space_def)
  have t: "trim_nonempty ''idli''"
    by (simp add: trim_nonempty_def is_white_space_def)
  have sc: "failing_scraper ''idli'' (scrape_limit (q_limit ?q1))
              = Inl (Error ''timeout of 10000ms exceeded'')"
    by (simp add: failing_scraper_def)
  from searchFoodItems_handler_fetch [of failing_scraper two_item_catalog 10 ?q1]
       searchFoodItems_handler_fetch [of failing_scraper two_item_catalog 10 ?q2]
       searchFoodItems_handler_fetch [of failing_scraper two_item_catalog 10 ?q3]
  show ?thesis
    using f1 f2 f3 t sc by (simp add: scrape_limit_def)
qed

section \<open>Food service: basket mutations\<close>

text \<open>
  Claim C8 at concrete inputs. User 99 updates basket row 1, which user 10 owns: the
  handler answers with success and the row carries the new quantity. An update of a row
  that does not exist is answered with status 500 and no code. The sibling
  \<open>removeFromBasket\<close> refuses user 99 with 404 \<open>NOT_FOUND\<close> and leaves the row.
\<close>

theorem updateBasketItem_ignores_owner:
  "updateBasketItem_handler owned_basket (Some 99) 1 (Some 7) None
     = (Success \<lparr>bi_id = 1, bi_userId = 10, bi_quantity = 7, bi_servingSize = 100,
                  bi_createdAt = 5, bi_foodItem = example_food 2 ''roti'' 50\<rparr>,
        owned_basket
          \<lparr>basketItem_rows :=
             [\<lparr>bi_id = 1, bi_userId = 10, bi_quantity = 7, bi_servingSize = 100,
               bi_createdAt = 5, bi_foodItem = example_food 2 ''roti'' 50\<rparr>]\<rparr>)
   \<and> updateBasketItem_handler owned_basket (Some 10) 42 (Some 7) None
     = (Failure ''Record to update not found.'' 500 None, owned_basket)
   \<and> removeFromBasket_handler owned_basket (Some 99) 1
     = (Failure ''Basket item not found or access denied'' 404 (Some ''NOT_FOUND''),
        owned_basket)"
  by (simp add: updateBasketItem_handler_def updateBasketItem_def removeFromBasket_handler_def
        removeFromBasket_def owned_basket_def Let_def record_not_found_def message_or_def
        Error_def)

text \<open>For every store: \<open>removeFromBasket\<close> on a row that is missing or belongs to
  another user answers 404 \<open>NOT_FOUND\<close> and leaves the store as it is.\<close>

lemma removeFromBasket_handler_not_owned:
  assumes "find (\<lambda>b. bi_id b = basketItemId) (basketItem_rows s) = None
           \<or> (\<exists>item. find (\<lambda>b. bi_id b = basketItemId) (basketItem_rows s) = Some item
                  \<and> bi_userId item \<noteq> u)"
  shows "removeFromBasket_handler s (Some u) basketItemId
           = (Failure ''Basket item not found or access denied'' 404 (Some ''NOT_FOUND''), s)"
  using assms
  by (auto simp: removeFromBasket_handler_def removeFromBasket_def Error_def)

text \<open>For every store: \<open>updateBasketItem\<close> on a row of any owner succeeds and rewrites
  it; on a missing row it answers 500.\<close>

lemma updateBasketItem_handler_any_owner:
  assumes "find (\<lambda>b. bi_id b = basketItemId) (basketItem_rows s) = Some item"
  shows "\<exists>s'. updateBasketItem_handler s (Some u) basketItemId (Some qty) None
                 = (Success (item\<lparr>bi_quantity := qty\<rparr>), s')"
  using assms by (simp add: updateBasketItem_handler_def updateBasketItem_def Let_def)

lemma updateBasketItem_handler_missing:
  assumes "find (\<lambda>b. bi_id b = basketItemId) (basketItem_rows s) = None"
  shows "updateBasketItem_handler s (Some u) basketItemId (Some qty) servingSize
           = (Failure ''Record to update not found.'' 500 None, s)"
  using assms
  by (simp add: updateBasketItem_handler_def updateBasketItem_def record_not_found_def
        message_or_def)

section \<open>Food service: paging of the catalog search\<close>

lemma length_skip_take:
  assumes "skip_take k n rows = Inr items"
  shows "length items \<le> nat \<bar>n\<bar>"
  using assms by (auto simp: skip_take_def split: if_splits)

text \<open>
  Claim C10, as amended. The effective page size is 20 when no limit or the limit 0 is
  given and otherwise the smaller of the requested limit and 100; the page is 1 when no
  page or the page 0 is given. When the offset \<open>(page - 1) \<times> size\<close> is not negative the
  search succeeds and reports that size and page; when the size is positive at most that
  many items are returned; the reported total counts the matching rows and
  \<open>totalPages\<close> is the total divided by the size, rounded up.
\<close>

theorem searchFoodItems_paging:
  fixes page limit :: "int option"
  defines "eff_limit \<equiv>
             (case limit of None \<Rightarrow> 20 | Some l \<Rightarrow> if l = 0 then 20 else min l 100)"
    and "eff_page \<equiv> (case page of None \<Rightarrow> 1 | Some p \<Rightarrow> if p = 0 then 1 else p)"
  assumes "0 \<le> (eff_page - 1) * eff_limit"
  shows "\<exists>r. searchFoodItems s search category page limit = Inr r
           \<and> sr_limit r = eff_limit
           \<and> sr_page r = eff_page
           \<and> (0 < eff_limit \<longrightarrow> int (length (sr_items r)) \<le> eff_limit)
           \<and> sr_total r = length (filter (search_where search category) (foodItem_rows s))
           \<and> sr_totalPages r = \<lceil>real (sr_total r) / real_of_int eff_limit\<rceil>"
proof -
  have l: "min (or_default limit 20) 100 = eff_limit"
    by (simp add: eff_limit_def or_default_def split: option.splits)
  have p: "or_default page 1 = eff_page"
    by (simp add: eff_page_def or_default_def split: option.splits)
  let ?rows = "sort_key fi_name (filter (search_where search category) (foodItem_rows s))"
  from assms(3) obtain items
    where st: "skip_take ((eff_page - 1) * eff_limit) eff_limit ?rows = Inr items"
    by (cases "0 \<le> eff_limit") (auto simp: skip_take_def)
  from length_skip_take [OF st]
  have len: "0 < eff_limit \<longrightarrow> int (length items) \<le> eff_limit"
    by auto
  show ?thesis
    using st len by (simp add: searchFoodItems_def Let_def l p)
qed

theorem searchFoodItems_paging_witness:
  "\<exists>r. searchFoodItems two_item_catalog None None (Some 2) (Some 1) = Inr r
      \<and> sr_limit r = 1 \<and> sr_page r = 2 \<and> int (length (sr_items r)) \<le> 1
      \<and> sr_total r = 2 \<and> sr_totalPages r = 2"
  using searchFoodItems_paging [of "Some 2" "Some 1" two_item_catalog None None]
  by (auto simp: two_item_catalog_def search_where_def)

text \<open>The claim as stated fails for a requested limit of 0: the page size is 20, not
  \<open>min(0, 100)\<close>, and two items are returned.\<close>

theorem searchFoodItems_limit_zero_counterexample:
  "searchFoodItems two_item_catalog None None None (Some 0)
     = Inr \<lparr>sr_items = [example_food 1 ''dal'' 100, example_food 2 ''roti'' 50],
            sr_total = 2, sr_page = 1, sr_limit = 20, sr_totalPages = 1\<rparr>
   \<and> min (0::int) 100 \<noteq> 20"
  by (simp add: searchFoodItems_def Let_def or_default_def skip_take_def two_item_catalog_def
        search_where_def example_food_def ceiling_def)

section \<open>Health service: the calories total under meal mutations\<close>

lemmas meal_examples = addMeal_def daily_or_create_def getDailyHealthData_def read_daily_def
  find_daily_def daily_view_of_def meals_of_def session_of_def zeroed_daily_def
  set_caloriesConsumed_def updateMeal_def deleteMeal_def or_default_def apply_meal_patch_def
  stored_caloriesConsumed_def meals_calories_def empty_health_def lunch_def calories_patch_def
  Let_def Error_def

text \<open>
  Claim C1 at a concrete input. On an empty store user 7 adds a meal of 100 kcal to day
  19000 (the day row gets id 1, the meal id 2) and then updates the meal with
  \<open>{ calories: 0 }\<close>. The meal row now carries 0 kcal, so the meals of the day sum to
  0, while the stored \<open>caloriesConsumed\<close> is still 100.
\<close>

theorem updateMeal_zero_calories_drift:
  "stored_caloriesConsumed
     (snd (updateMeal (snd (addMeal empty_health 1000 7 19000 lunch)) 2 (calories_patch 0)))
     7 19000 = Some 100
   \<and> meals_calories
     (snd (updateMeal (snd (addMeal empty_health 1000 7 19000 lunch)) 2 (calories_patch 0)))
     7 19000 = Some 0"
  by (simp add: meal_examples)

text \<open>An update to a non-zero value and a delete keep the total and the sum equal.\<close>

lemma updateMeal_nonzero_calories_example:
  "stored_caloriesConsumed
     (snd (updateMeal (snd (addMeal empty_health 1000 7 19000 lunch)) 2 (calories_patch 40)))
     7 19000 = Some 40
   \<and> meals_calories
     (snd (updateMeal (snd (addMeal empty_health 1000 7 19000 lunch)) 2 (calories_patch 40)))
     7 19000 = Some 40"
  by (simp add: meal_examples)

lemma deleteMeal_example:
  "stored_caloriesConsumed
     (snd (deleteMeal (snd (addMeal empty_health 1000 7 19000 lunch)) 2))
     7 19000 = Some 0
   \<and> meals_calories
     (snd (deleteMeal (snd (addMeal empty_health 1000 7 19000 lunch)) 2))
     7 19000 = Some 0"
  by (simp add: meal_examples)

subsection \<open>Sequences without a zero-calorie update keep the total\<close>

text \<open>
  Apart from an update that sends the calories 0, the three mutators keep the stored
  total equal to the sum over the meals: for every sequence of adds with non-negative
  calories, updates that send no calories or positive ones, and deletes, starting from
  the empty store. The proof goes through the state \<open>meals_consistent\<close>.
\<close>

lemma getDailyHealthData_frame:
  assumes "getDailyHealthData s now u d = (r, s1)"
  shows "dailyHealthData_rows s1 = dailyHealthData_rows s \<and> meal_rows s1 = meal_rows s
         \<and> health_next_id s1 = health_next_id s
         \<and> (\<forall>v. r = Some v \<longrightarrow> dv_row v \<in> set (dailyHealthData_rows s))
         \<and> (r = None \<longleftrightarrow> find_daily s u d = None)"
proof -
  have m: "find_daily s u d = Some x \<Longrightarrow> x \<in> set (dailyHealthData_rows s)" for x
    by (auto simp: find_daily_def find_Some_iff)
  show ?thesis
    using assms m
    by (auto simp: getDailyHealthData_def read_daily_def find_daily_def Let_def daily_view_of_def
             split: option.splits)
qed

lemma meals_of_frame:
  "meal_rows s1 = meal_rows s \<Longrightarrow> meals_of s1 k = meals_of s k"
  by (simp add: meals_of_def)

lemma meals_consistent_frame:
  assumes "meals_consistent s" and "dailyHealthData_rows s1 = dailyHealthData_rows s"
    and "meal_rows s1 = meal_rows s" and "health_next_id s1 = health_next_id s"
  shows "meals_consistent s1"
  using assms by (simp add: meals_consistent_def meals_of_def)

lemma sum_filter_map_id:
  assumes "distinct (map meal_id xs)" and "m \<in> set xs"
    and "meal_dailyHealthDataId (g m) = meal_dailyHealthDataId m"
  shows "sum_list (map meal_calories
           (filter (\<lambda>x. meal_dailyHealthDataId x = k)
              (map (\<lambda>x. if meal_id x = meal_id m then g x else x) xs)))
         = sum_list (map meal_calories (filter (\<lambda>x. meal_dailyHealthDataId x = k) xs))
           + (if meal_dailyHealthDataId m = k then meal_calories (g m) - meal_calories m else 0)"
  using assms
proof (induction xs)
  case Nil
  then show ?case by simp
next
  case (Cons x xs)
  show ?case
  proof (cases "x = m")
    case True
    with Cons.prems have "meal_id m \<notin> meal_id ` set xs" by simp
    then have "\<forall>x \<in> set xs. meal_id x \<noteq> meal_id m"
      by (metis image_eqI)
    then have "map (\<lambda>x. if meal_id x = meal_id m then g x else x) xs = xs"
      by (intro map_idI) auto
    with True Cons.prems(3) show ?thesis by simp
  next
    case False
    with Cons.prems have "m \<in> set xs" "meal_id x \<noteq> meal_id m" "distinct (map meal_id xs)"
      by auto
    with Cons.IH Cons.prems(3) show ?thesis by simp
  qed
qed

lemma sum_filter_delete:
  assumes "distinct (map meal_id xs)" and "m \<in> set xs"
  shows "sum_list (map meal_calories
           (filter (\<lambda>x. meal_dailyHealthDataId x = k)
              (filter (\<lambda>x. meal_id x \<noteq> meal_id m) xs)))
         = sum_list (map meal_calories (filter (\<lambda>x. meal_dailyHealthDataId x = k) xs))
           - (if meal_dailyHealthDataId m = k then meal_calories m else 0)"
  using assms
proof (induction xs)
  case Nil
  then show ?case by simp
next
  case (Cons x xs)
  show ?case
  proof (cases "x = m")
    case True
    with Cons.prems have "meal_id m \<notin> meal_id ` set xs" by simp
    then have "\<forall>x \<in> set xs. meal_id x \<noteq> meal_id m"
      by (metis image_eqI)
    then have "filter (\<lambda>x. meal_id x \<noteq> meal_id m) xs = xs"
      by (intro filter_True) auto
    with True show ?thesis by simp
  next
    case False
    with Cons.prems have "m \<in> set xs" "meal_id x \<noteq> meal_id m" "distinct (map meal_id xs)"
      by auto
    with Cons.IH show ?thesis by simp
  qed
qed

lemma find_meal:
  assumes "find (\<lambda>m. meal_id m = mealId) xs = Some m"
  shows "m \<in> set xs \<and> meal_id m = mealId"
  using assms by (auto simp: find_Some_iff)

lemma sum_list_nonneg_meals:
  assumes "list_all (\<lambda>m. 0 \<le> meal_calories m) xs"
  shows "0 \<le> sum_list (map meal_calories (filter P xs))"
  using assms by (induction xs) auto

lemma daily_or_create_consistent:
  assumes "meals_consistent s" and "daily_or_create s now u d = (data, s0)"
  shows "meals_consistent s0 \<and> dv_row data \<in> set (dailyHealthData_rows s0)"
proof -
  obtain r s1 where g: "getDailyHealthData s now u d = (r, s1)"
    by (cases "getDailyHealthData s now u d")
  from getDailyHealthData_frame [OF g]
  have f1: "dailyHealthData_rows s1 = dailyHealthData_rows s"
    and f2: "meal_rows s1 = meal_rows s"
    and f3: "health_next_id s1 = health_next_id s"
    and f4: "\<forall>v. r = Some v \<longrightarrow> dv_row v \<in> set (dailyHealthData_rows s)"
    by blast+
  have c1: "meals_consistent s1"
    using assms(1) f1 f2 f3 by (rule meals_consistent_frame)
  show ?thesis
  proof (cases r)
    case (Some v)
    with assms(2) g have "data = v" "s0 = s1"
      by (simp_all add: daily_or_create_def)
    with c1 f1 f4 Some show ?thesis by simp
  next
    case None
    let ?z = "zeroed_daily (health_next_id s1) u d now"
    from None assms(2) g have s0: "s0 = s1\<lparr>dailyHealthData_rows := dailyHealthData_rows s1 @ [?z],
                                          health_next_id := Suc (health_next_id s1)\<rparr>"
      and data: "dv_row data = ?z"
      by (auto simp: daily_or_create_def Let_def)
    have dm: "distinct (map meal_id (meal_rows s1))"
      and dd: "distinct (map dhd_id (dailyHealthData_rows s1))"
      and am: "\<forall>x \<in> set (meal_rows s1). meal_id x < health_next_id s1
                 \<and> meal_dailyHealthDataId x < health_next_id s1 \<and> 0 \<le> meal_calories x"
      and ad: "\<forall>d \<in> set (dailyHealthData_rows s1). dhd_id d < health_next_id s1
                 \<and> caloriesConsumed d = sum_list (map meal_calories (meals_of s1 (dhd_id d)))"
      using c1 by (simp_all add: meals_consistent_def list_all_iff)
    have empty: "meals_of s1 (health_next_id s1) = []"
      using am by (auto simp: meals_of_def filter_empty_conv)
    have mo: "meals_of s0 j = meals_of s1 j" for j
      by (simp add: s0 meals_of_def)
    have zid: "dhd_id ?z = health_next_id s1" and zc: "caloriesConsumed ?z = 0"
      by (simp_all add: zeroed_daily_def)
    have fresh: "health_next_id s1 \<notin> dhd_id ` set (dailyHealthData_rows s1)"
      using ad by force
    have p1: "distinct (map meal_id (meal_rows s0))"
      using dm by (simp add: s0)
    have p2: "distinct (map dhd_id (dailyHealthData_rows s0))"
      using dd fresh by (simp add: s0 zid)
    have p3: "\<forall>x \<in> set (meal_rows s0). meal_id x < health_next_id s0
                 \<and> meal_dailyHealthDataId x < health_next_id s0 \<and> 0 \<le> meal_calories x"
      using am by (auto simp: s0 less_Suc_eq)
    have p4: "\<forall>d \<in> set (dailyHealthData_rows s0). dhd_id d < health_next_id s0
                 \<and> caloriesConsumed d = sum_list (map meal_calories (meals_of s0 (dhd_id d)))"
      unfolding mo using ad empty zid zc by (auto simp: s0 less_Suc_eq)
    have "meals_consistent s0"
      unfolding meals_consistent_def list_all_iff using p1 p2 p3 p4 by blast
    with s0 data show ?thesis by simp
  qed
qed

lemma set_caloriesConsumed_ids:
  "map dhd_id (set_caloriesConsumed k v rows) = map dhd_id rows"
  by (induction rows) (simp_all add: set_caloriesConsumed_def)

lemma add_to_day_consistent:
  assumes c: "meals_consistent s0" and k: "row \<in> set (dailyHealthData_rows s0)"
    and m: "meal_id meal = health_next_id s0" "meal_dailyHealthDataId meal = dhd_id row"
      "0 \<le> meal_calories meal"
  shows "meals_consistent
           (s0\<lparr>meal_rows := meal_rows s0 @ [meal],
               health_next_id := Suc (health_next_id s0),
               dailyHealthData_rows :=
                 set_caloriesConsumed (dhd_id row) (\<lambda>d. caloriesConsumed d + meal_calories meal)
                   (dailyHealthData_rows s0)\<rparr>)"
    (is "meals_consistent ?s'")
proof -
  let ?f = "\<lambda>d. if dhd_id d = dhd_id row
                then d\<lparr>caloriesConsumed := caloriesConsumed d + meal_calories meal\<rparr> else d"
  have rows': "dailyHealthData_rows ?s' = map ?f (dailyHealthData_rows s0)"
    by (simp add: set_caloriesConsumed_def)
  have dm: "distinct (map meal_id (meal_rows s0))"
    and dd: "distinct (map dhd_id (dailyHealthData_rows s0))"
    and am: "\<forall>x \<in> set (meal_rows s0). meal_id x < health_next_id s0
               \<and> meal_dailyHealthDataId x < health_next_id s0 \<and> 0 \<le> meal_calories x"
    and ad: "\<forall>d \<in> set (dailyHealthData_rows s0). dhd_id d < health_next_id s0
               \<and> caloriesConsumed d = sum_list (map meal_calories (meals_of s0 (dhd_id d)))"
    using c by (simp_all add: meals_consistent_def list_all_iff)
  have lt: "dhd_id row < health_next_id s0"
    using ad k by blast
  have fresh: "meal_id meal \<notin> meal_id ` set (meal_rows s0)"
    using am m(1) by force
  have p1: "distinct (map meal_id (meal_rows ?s'))"
    using dm fresh by simp
  have "dailyHealthData_rows ?s'
          = set_caloriesConsumed (dhd_id row) (\<lambda>d. caloriesConsumed d + meal_calories meal)
              (dailyHealthData_rows s0)"
    by simp
  then have p2: "distinct (map dhd_id (dailyHealthData_rows ?s'))"
    using dd by (simp only: set_caloriesConsumed_ids)
  have p3: "\<forall>x \<in> set (meal_rows ?s'). meal_id x < health_next_id ?s'
               \<and> meal_dailyHealthDataId x < health_next_id ?s' \<and> 0 \<le> meal_calories x"
    using am m lt by (auto simp: less_Suc_eq)
  have mo: "sum_list (map meal_calories (meals_of ?s' j))
              = sum_list (map meal_calories (meals_of s0 j))
                + (if dhd_id row = j then meal_calories meal else 0)" for j
    using m(2) by (simp add: meals_of_def)
  have p4: "\<forall>d \<in> set (dailyHealthData_rows ?s'). dhd_id d < health_next_id ?s'
               \<and> caloriesConsumed d = sum_list (map meal_calories (meals_of ?s' (dhd_id d)))"
  proof
    fix d' assume "d' \<in> set (dailyHealthData_rows ?s')"
    then obtain d where d: "d \<in> set (dailyHealthData_rows s0)" and d': "d' = ?f d"
      unfolding rows' by auto
    from ad d have a: "dhd_id d < health_next_id s0"
      and b: "caloriesConsumed d = sum_list (map meal_calories (meals_of s0 (dhd_id d)))"
      by simp_all
    show "dhd_id d' < health_next_id ?s'
            \<and> caloriesConsumed d' = sum_list (map meal_calories (meals_of ?s' (dhd_id d')))"
      unfolding d' mo using a b by (simp add: less_Suc_eq)
  qed
  show ?thesis
    unfolding meals_consistent_def list_all_iff using p1 p2 p3 p4 by blast
qed

lemma addMeal_consistent:
  assumes "meals_consistent s" and "0 \<le> mi_calories mealData"
  shows "meals_consistent (snd (addMeal s now u d mealData))"
proof -
  obtain data s0 where dc: "daily_or_create s now u d = (data, s0)"
    by (cases "daily_or_create s now u d")
  from daily_or_create_consistent [OF assms(1) dc]
  have c0: "meals_consistent s0" and k: "dv_row data \<in> set (dailyHealthData_rows s0)"
    by simp_all
  show ?thesis
    using add_to_day_consistent [OF c0 k, of
        "\<lparr>meal_id = health_next_id s0,
          meal_dailyHealthDataId = dhd_id (dv_row data),
          meal_type = mi_type mealData, meal_name = mi_name mealData,
          meal_calories = mi_calories mealData, meal_carbs = mi_carbs mealData,
          meal_protein = mi_protein mealData, meal_fat = mi_fat mealData,
          meal_timestamp = mi_timestamp mealData\<rparr>"] assms(2)
    by (simp add: addMeal_def dc Let_def)
qed

lemma consistent_parts:
  assumes "meals_consistent s"
  shows "distinct (map meal_id (meal_rows s))"
    and "distinct (map dhd_id (dailyHealthData_rows s))"
    and "\<forall>x \<in> set (meal_rows s). meal_id x < health_next_id s
           \<and> meal_dailyHealthDataId x < health_next_id s \<and> 0 \<le> meal_calories x"
    and "\<forall>d \<in> set (dailyHealthData_rows s). dhd_id d < health_next_id s
           \<and> caloriesConsumed d = sum_list (map meal_calories (meals_of s (dhd_id d)))"
  using assms by (simp_all add: meals_consistent_def list_all_iff)

lemma consistentI:
  assumes "distinct (map meal_id (meal_rows s))"
    and "distinct (map dhd_id (dailyHealthData_rows s))"
    and "\<forall>x \<in> set (meal_rows s). meal_id x < health_next_id s
           \<and> meal_dailyHealthDataId x < health_next_id s \<and> 0 \<le> meal_calories x"
    and "\<forall>d \<in> set (dailyHealthData_rows s). dhd_id d < health_next_id s
           \<and> caloriesConsumed d = sum_list (map meal_calories (meals_of s (dhd_id d)))"
  shows "meals_consistent s"
  using assms by (simp add: meals_consistent_def list_all_iff)

lemma find_daily_row:
  assumes "find (\<lambda>d. dhd_id d = k) rows = Some dd"
  shows "dd \<in> set rows \<and> dhd_id dd = k"
  using assms by (auto simp: find_Some_iff)

lemma find_daily_none:
  assumes "find (\<lambda>d. dhd_id d = k) rows = None"
  shows "\<forall>d \<in> set rows. dhd_id d \<noteq> k"
  using assms by (auto simp: find_None_iff)

text \<open>A change of the meal rows that moves the sum of day \<open>k\<close> by \<open>delta\<close>, followed by
  the matching change of the stored total of that day.\<close>

lemma change_day_consistent:
  assumes c: "meals_consistent s"
    and ids: "map meal_id meals' = map meal_id (meal_rows s) \<or>
              (distinct (map meal_id meals') \<and> set meals' \<subseteq> set (meal_rows s))"
    and ok: "\<forall>x \<in> set meals'. meal_id x < health_next_id s
               \<and> meal_dailyHealthDataId x < health_next_id s \<and> 0 \<le> meal_calories x"
    and sums: "\<forall>j. sum_list (map meal_calories (filter (\<lambda>x. meal_dailyHealthDataId x = j) meals'))
                 = sum_list (map meal_calories (meals_of s j)) + (if j = k then delta else 0)"
    and rows': "rows' = dailyHealthData_rows s \<and> (delta = 0 \<or> (\<forall>d \<in> set (dailyHealthData_rows s). dhd_id d \<noteq> k))
               \<or> (\<exists>dd. dd \<in> set (dailyHealthData_rows s) \<and> dhd_id dd = k
                     \<and> rows' = set_caloriesConsumed k (\<lambda>d. caloriesConsumed dd + delta)
                                  (dailyHealthData_rows s))"
  shows "meals_consistent (s\<lparr>meal_rows := meals', dailyHealthData_rows := rows'\<rparr>)"
    (is "meals_consistent ?s'")
proof (rule consistentI)
  note p = consistent_parts [OF c]
  show "distinct (map meal_id (meal_rows ?s'))"
    using ids p(1) by auto
  have idr: "map dhd_id rows' = map dhd_id (dailyHealthData_rows s)"
    using rows' by (auto simp: set_caloriesConsumed_ids)
  then show "distinct (map dhd_id (dailyHealthData_rows ?s'))"
    using p(2) by simp
  show "\<forall>x \<in> set (meal_rows ?s'). meal_id x < health_next_id ?s'
           \<and> meal_dailyHealthDataId x < health_next_id ?s' \<and> 0 \<le> meal_calories x"
    using ok by simp
  have mo: "sum_list (map meal_calories (meals_of ?s' j))
              = sum_list (map meal_calories (meals_of s j)) + (if j = k then delta else 0)" for j
    using sums by (simp add: meals_of_def)
  show "\<forall>d \<in> set (dailyHealthData_rows ?s'). dhd_id d < health_next_id ?s'
           \<and> caloriesConsumed d = sum_list (map meal_calories (meals_of ?s' (dhd_id d)))"
  proof
    fix d' assume d': "d' \<in> set (dailyHealthData_rows ?s')"
    from rows' show "dhd_id d' < health_next_id ?s'
           \<and> caloriesConsumed d' = sum_list (map meal_calories (meals_of ?s' (dhd_id d')))"
    proof
      assume a: "rows' = dailyHealthData_rows s
                  \<and> (delta = 0 \<or> (\<forall>d \<in> set (dailyHealthData_rows s). dhd_id d \<noteq> k))"
      with d' have "d' \<in> set (dailyHealthData_rows s)" by simp
      with p(4) a show ?thesis unfolding mo by auto
    next
      assume "\<exists>dd. dd \<in> set (dailyHealthData_rows s) \<and> dhd_id dd = k
                     \<and> rows' = set_caloriesConsumed k (\<lambda>d. caloriesConsumed dd + delta)
                                  (dailyHealthData_rows s)"
      then obtain dd where dd: "dd \<in> set (dailyHealthData_rows s)" "dhd_id dd = k"
        and r: "rows' = set_caloriesConsumed k (\<lambda>d. caloriesConsumed dd + delta)
                          (dailyHealthData_rows s)"
        by blast
      from d' r obtain d where d: "d \<in> set (dailyHealthData_rows s)"
        and e: "d' = (if dhd_id d = k then d\<lparr>caloriesConsumed := caloriesConsumed dd + delta\<rparr> else d)"
        by (auto simp: set_caloriesConsumed_def)
      show ?thesis
      proof (cases "dhd_id d = k")
        case True
        with p(2) d dd have "d = dd" by (metis distinct_map inj_onD)
        with True e p(4) dd show ?thesis unfolding mo by auto
      next
        case False
        with e p(4) d show ?thesis unfolding mo by auto
      qed
    qed
  qed
qed

lemma apply_meal_patch_keys [simp]:
  "meal_id (apply_meal_patch p m) = meal_id m"
  "meal_dailyHealthDataId (apply_meal_patch p m) = meal_dailyHealthDataId m"
  by (simp_all add: apply_meal_patch_def)

lemma map_patch_ids:
  "map meal_id (map (\<lambda>x. if meal_id x = i then apply_meal_patch p x else x) xs) = map meal_id xs"
  by (induction xs) simp_all

lemma updateMeal_consistent:
  assumes c: "meals_consistent s"
    and plain: "case mp_calories mealData of None \<Rightarrow> True | Some v \<Rightarrow> 0 < v"
  shows "meals_consistent (snd (updateMeal s mealId mealData))"
proof (cases "find (\<lambda>m. meal_id m = mealId) (meal_rows s)")
  case None
  with c show ?thesis by (simp add: updateMeal_def)
next
  case (Some meal)
  note p = consistent_parts [OF c]
  from find_meal [OF Some] have min: "meal \<in> set (meal_rows s)" and mid: "meal_id meal = mealId"
    by simp_all
  let ?old = "meal_calories meal"
  let ?new = "or_default (mp_calories mealData) ?old"
  let ?k = "meal_dailyHealthDataId meal"
  let ?meals' = "map (\<lambda>m. if meal_id m = mealId then apply_meal_patch mealData m else m) (meal_rows s)"
  have newcal: "meal_calories (apply_meal_patch mealData meal) = ?new"
    using plain by (auto simp: apply_meal_patch_def or_default_def split: option.splits)
  have nonneg: "0 \<le> ?new"
    using plain p(3) min by (auto simp: or_default_def split: option.splits)
  have ids: "map meal_id ?meals' = map meal_id (meal_rows s)"
    by (rule map_patch_ids)
  have ok: "\<forall>x \<in> set ?meals'. meal_id x < health_next_id s
               \<and> meal_dailyHealthDataId x < health_next_id s \<and> 0 \<le> meal_calories x"
  proof
    fix x assume "x \<in> set ?meals'"
    then obtain y where y: "y \<in> set (meal_rows s)"
      and x: "x = (if meal_id y = mealId then apply_meal_patch mealData y else y)"
      by auto
    show "meal_id x < health_next_id s
               \<and> meal_dailyHealthDataId x < health_next_id s \<and> 0 \<le> meal_calories x"
    proof (cases "meal_id y = mealId")
      case True
      with p(1) y min mid have "y = meal" by (metis distinct_map inj_onD)
      with True x p(3) min newcal nonneg show ?thesis by auto
    next
      case False
      with x p(3) y show ?thesis by auto
    qed
  qed
  have sums: "\<forall>j. sum_list (map meal_calories (filter (\<lambda>x. meal_dailyHealthDataId x = j) ?meals'))
                 = sum_list (map meal_calories (meals_of s j))
                   + (if j = ?k then ?new - ?old else 0)"
    using sum_filter_map_id [OF p(1) min, of "apply_meal_patch mealData"] newcal mid
    by (auto simp: meals_of_def)
  let ?found = "find (\<lambda>d. dhd_id d = ?k) (dailyHealthData_rows s)"
  let ?rows' = "if ?old \<noteq> ?new
                then (case ?found of
                        None \<Rightarrow> dailyHealthData_rows s
                      | Some dailyData \<Rightarrow>
                          set_caloriesConsumed ?k (\<lambda>d. caloriesConsumed dailyData - ?old + ?new)
                            (dailyHealthData_rows s))
                else dailyHealthData_rows s"
  have res: "snd (updateMeal s mealId mealData)
               = s\<lparr>meal_rows := ?meals', dailyHealthData_rows := ?rows'\<rparr>"
    using Some by (simp add: updateMeal_def Let_def split: option.splits)
  have rows': "?rows' = dailyHealthData_rows s
                 \<and> (?new - ?old = 0 \<or> (\<forall>d \<in> set (dailyHealthData_rows s). dhd_id d \<noteq> ?k))
               \<or> (\<exists>dd. dd \<in> set (dailyHealthData_rows s) \<and> dhd_id dd = ?k
                     \<and> ?rows' = set_caloriesConsumed ?k (\<lambda>d. caloriesConsumed dd + (?new - ?old))
                                  (dailyHealthData_rows s))"
  proof (cases "?old = ?new")
    case True
    then show ?thesis by simp
  next
    case False
    show ?thesis
    proof (cases ?found)
      case None
      from find_daily_none [OF None] False show ?thesis by (simp add: None)
    next
      case (Some dd)
      from find_daily_row [OF Some] False show ?thesis
        by (auto simp: Some algebra_simps intro!: exI [of _ dd])
    qed
  qed
  show ?thesis
    unfolding res
    using change_day_consistent [OF c disjI1 [OF ids] ok sums rows'] .
qed

lemma deleteMeal_consistent:
  assumes c: "meals_consistent s"
  shows "meals_consistent (snd (deleteMeal s mealId))"
proof (cases "find (\<lambda>m. meal_id m = mealId) (meal_rows s)")
  case None
  with c show ?thesis by (simp add: deleteMeal_def)
next
  case (Some meal)
  note p = consistent_parts [OF c]
  from find_meal [OF Some] have min: "meal \<in> set (meal_rows s)" and mid: "meal_id meal = mealId"
    by simp_all
  let ?k = "meal_dailyHealthDataId meal"
  let ?meals' = "filter (\<lambda>m. meal_id m \<noteq> mealId) (meal_rows s)"
  have ids: "distinct (map meal_id ?meals') \<and> set ?meals' \<subseteq> set (meal_rows s)"
    using p(1) by (simp add: distinct_map_filter)
  have ok: "\<forall>x \<in> set ?meals'. meal_id x < health_next_id s
               \<and> meal_dailyHealthDataId x < health_next_id s \<and> 0 \<le> meal_calories x"
    using p(3) by simp
  have sums: "\<forall>j. sum_list (map meal_calories (filter (\<lambda>x. meal_dailyHealthDataId x = j) ?meals'))
                 = sum_list (map meal_calories (meals_of s j))
                   + (if j = ?k then - meal_calories meal else 0)"
    using sum_filter_delete [OF p(1) min] mid by (auto simp: meals_of_def)
  let ?found = "find (\<lambda>d. dhd_id d = ?k) (dailyHealthData_rows s)"
  let ?rows' = "case ?found of
                  None \<Rightarrow> dailyHealthData_rows s
                | Some dailyData \<Rightarrow>
                    set_caloriesConsumed ?k
                      (\<lambda>d. max 0 (caloriesConsumed dailyData - meal_calories meal))
                      (dailyHealthData_rows s)"
  have res: "snd (deleteMeal s mealId)
               = s\<lparr>meal_rows := ?meals', dailyHealthData_rows := ?rows'\<rparr>"
    using Some by (simp add: deleteMeal_def Let_def split: option.splits)
  have rows': "?rows' = dailyHealthData_rows s
                 \<and> (- meal_calories meal = 0 \<or> (\<forall>d \<in> set (dailyHealthData_rows s). dhd_id d \<noteq> ?k))
               \<or> (\<exists>dd. dd \<in> set (dailyHealthData_rows s) \<and> dhd_id dd = ?k
                     \<and> ?rows' = set_caloriesConsumed ?k
                                  (\<lambda>d. caloriesConsumed dd + (- meal_calories meal))
                                  (dailyHealthData_rows s))"
  proof (cases ?found)
    case None
    from find_daily_none [OF None] show ?thesis by (simp add: None)
  next
    case (Some dd)
    from find_daily_row [OF Some] have din: "dd \<in> set (dailyHealthData_rows s)"
      and dk: "dhd_id dd = ?k" by simp_all
    from p(4) din dk have cc: "caloriesConsumed dd = sum_list (map meal_calories (meals_of s ?k))"
      by auto
    have rest: "0 \<le> sum_list (map meal_calories
                       (filter (\<lambda>x. meal_dailyHealthDataId x = ?k) ?meals'))"
      using p(3) by (intro sum_list_nonneg_meals) (simp add: list_all_iff)
    with sums cc have "0 \<le> caloriesConsumed dd - meal_calories meal"
      by simp
    then have "max 0 (caloriesConsumed dd - meal_calories meal)
                 = caloriesConsumed dd + (- meal_calories meal)"
      by simp
    with din dk show ?thesis
      by (auto simp: Some intro!: exI [of _ dd])
  qed
  show ?thesis
    unfolding res
    using change_day_consistent [OF c disjI2 [OF ids] ok sums rows'] .
qed

lemma apply_meal_op_consistent:
  assumes "meals_consistent s" and "plain_meal_op op"
  shows "meals_consistent (apply_meal_op now s op)"
proof (cases op)
  case (AddMeal u d mealData)
  with assms show ?thesis by (simp add: addMeal_consistent)
next
  case (UpdateMeal mealId mealData)
  with assms show ?thesis by (simp add: updateMeal_consistent)
next
  case (DeleteMeal mealId)
  with assms show ?thesis by (simp add: deleteMeal_consistent)
qed

lemma meal_ops_consistent:
  assumes "meals_consistent s" and "list_all plain_meal_op ops"
  shows "meals_consistent (foldl (apply_meal_op now) s ops)"
  using assms
  by (induction ops arbitrary: s) (simp_all add: apply_meal_op_consistent)

lemma empty_health_consistent: "meals_consistent empty_health"
  by (simp add: meals_consistent_def empty_health_def)

lemma consistent_total:
  assumes "meals_consistent s"
  shows "stored_caloriesConsumed s u d = meals_calories s u d
         \<and> (case stored_caloriesConsumed s u d of None \<Rightarrow> True | Some c \<Rightarrow> 0 \<le> c)"
proof (cases "find_daily s u d")
  case None
  then show ?thesis by (simp add: stored_caloriesConsumed_def meals_calories_def)
next
  case (Some row)
  then have "row \<in> set (dailyHealthData_rows s)"
    by (auto simp: find_daily_def find_Some_iff)
  with consistent_parts(4) [OF assms]
  have e: "caloriesConsumed row = sum_list (map meal_calories (meals_of s (dhd_id row)))"
    by blast
  have "0 \<le> sum_list (map meal_calories (meals_of s (dhd_id row)))"
    unfolding meals_of_def
    using consistent_parts(3) [OF assms]
    by (intro sum_list_nonneg_meals) (simp add: list_all_iff)
  with e Some show ?thesis
    by (simp add: stored_caloriesConsumed_def meals_calories_def)
qed

lemma meal_operations_keep_total:
  assumes "list_all plain_meal_op ops"
  shows "stored_caloriesConsumed (foldl (apply_meal_op now) empty_health ops) u d
           = meals_calories (foldl (apply_meal_op now) empty_health ops) u d
         \<and> (case stored_caloriesConsumed (foldl (apply_meal_op now) empty_health ops) u d of
              None \<Rightarrow> True | Some c \<Rightarrow> 0 \<le> c)"
  using consistent_total [OF meal_ops_consistent [OF empty_health_consistent assms]] .

section \<open>Health service: auto-completion on read\<close>

lemma complete_session_map: "complete_session now rows upd = map (completed now upd) rows"
  by (simp add: complete_session_def)

lemma completed_daily [simp]: "fs_dailyHealthDataId (completed now upd f) = fs_dailyHealthDataId f"
  and completed_id [simp]: "fs_id (completed now upd f) = fs_id f"
  by (simp_all add: completed_def)

lemma find_map_invariant:
  assumes "\<And>x. P (g x) = P x"
  shows "find P (map g xs) = map_option g (find P xs)"
  by (induction xs) (simp_all add: assms)

lemma foldl_complete_session:
  "foldl (complete_session now) rows ups
     = map (\<lambda>f. foldl (\<lambda>f u. completed now u f) f ups) rows"
proof (induction ups arbitrary: rows)
  case Nil
  then show ?case by simp
next
  case (Cons u ups)
  have "foldl (complete_session now) rows (u # ups)
          = foldl (complete_session now) (complete_session now rows u) ups"
    by simp
  also have "\<dots> = map (\<lambda>f. foldl (\<lambda>f u. completed now u f) f ups) (complete_session now rows u)"
    by (rule Cons.IH)
  also have "\<dots> = map (\<lambda>f. foldl (\<lambda>f u. completed now u f) f (u # ups)) rows"
    by (simp add: complete_session_map comp_def)
  finally show ?case .
qed

lemma foldl_completed_daily [simp]:
  "fs_dailyHealthDataId (foldl (\<lambda>f u. completed now u f) f ups) = fs_dailyHealthDataId f"
  by (induction ups arbitrary: f) simp_all

lemma foldl_completed_same:
  assumes "\<forall>u \<in> set ups. fst u = fs_id f \<longrightarrow> snd u = t"
    and "\<exists>u \<in> set ups. fst u = fs_id f"
  shows "foldl (\<lambda>f u. completed now u f) f ups = f\<lparr>fs_endTime := Some now, fs_duration := t\<rparr>"
proof -
  have gen: "\<forall>u \<in> set ups. fst u = fs_id g \<longrightarrow> snd u = t \<Longrightarrow>
             foldl (\<lambda>f u. completed now u f) g ups
               = (if \<exists>u \<in> set ups. fst u = fs_id g
                  then g\<lparr>fs_endTime := Some now, fs_duration := t\<rparr> else g)
             \<and> foldl (\<lambda>f u. completed now u f) (g\<lparr>fs_endTime := Some now, fs_duration := t\<rparr>) ups
               = g\<lparr>fs_endTime := Some now, fs_duration := t\<rparr>" for g
  proof (induction ups arbitrary: g)
    case Nil
    then show ?case by simp
  next
    case (Cons u ups)
    then show ?case
      by (auto simp: completed_def)
  qed
  from gen [of f] assms show ?thesis by simp
qed

lemma session_of_in_rows:
  "session_of s k = Some fs \<Longrightarrow> fs \<in> set (fastingSession_rows s) \<and> fs_dailyHealthDataId fs = k"
  by (auto simp: session_of_def find_Some_iff)

lemma pending_completion_fst:
  "pending_completion now fs = Some u \<Longrightarrow> fst u = fs_id fs \<and> fs_targetDuration fs = Some (snd u)"
  by (auto simp: pending_completion_def split: option.splits if_splits)

lemma pending_completions_members:
  assumes "u \<in> set (pending_completions now (week_views s usr dates))"
  shows "\<exists>fs \<in> set (fastingSession_rows s). pending_completion now fs = Some u"
proof -
  from assms obtain v where v: "v \<in> set (week_views s usr dates)"
    and p: "(case dv_fastingSession v of None \<Rightarrow> None | Some fs \<Rightarrow> pending_completion now fs) = Some u"
    by (auto simp: pending_completions_def List.map_filter_def)
  then obtain fs where f: "dv_fastingSession v = Some fs" and q: "pending_completion now fs = Some u"
    by (auto split: option.splits)
  from v f obtain k where "session_of s k = Some fs"
    by (auto simp: week_views_def weekly_view_of_def)
  with session_of_in_rows have "fs \<in> set (fastingSession_rows s)" by blast
  with q show ?thesis by blast
qed

lemma distinct_ids_eq:
  assumes "distinct (map fs_id rows)" and "a \<in> set rows" and "b \<in> set rows"
    and "fs_id a = fs_id b"
  shows "a = b"
  using assms by (meson distinct_map inj_onD)

lemma in_set_mapI: "x \<in> set xs \<Longrightarrow> f x \<in> set (map f xs)"
  by simp

lemma week_views_sessions:
  assumes "map fs_dailyHealthDataId rows' = map fs_dailyHealthDataId (fastingSession_rows s)"
  shows "week_views (s\<lparr>fastingSession_rows := rows'\<rparr>) usr dates
           = map (\<lambda>v. v\<lparr>dv_fastingSession :=
                          find (\<lambda>f. fs_dailyHealthDataId f = dhd_id (dv_row v)) rows'\<rparr>)
               (week_views s usr dates)"
  by (simp add: week_views_def weekly_view_of_def meals_of_def session_of_def comp_def)

lemmas read_examples = getDailyHealthData_def read_daily_def find_daily_def daily_view_of_def
  weekly_view_of_def meals_of_def session_of_def zeroed_daily_def fasting_day_def
  pending_completion_def complete_session_def completed_def elapsedHours_def hours_def Let_def

text \<open>
  Claim C2, as amended. Let a session be Active (no end time) with a target duration
  \<open>t\<close> that is set and not zero, and let the hours elapsed since its start be at least
  \<open>t\<close>. If the day of user \<open>u\<close> holds this session, \<open>getDailyHealthData\<close> returns
  the day with the session Completed: end time \<open>now\<close> and duration \<open>t\<close>. If the
  session belongs to a day of the user whose date key is among those that the loop of
  \<open>getWeeklyHealthData\<close> lists for the start date (session ids being unique), the
  returned list contains that day with the session Completed in the same way.
\<close>

theorem read_completes_expired_session:
  assumes act: "fs_endTime fs = None"
    and tgt: "fs_targetDuration fs = Some t" "t \<noteq> 0"
    and exp: "real_of_int t \<le> elapsedHours now (fs_startTime fs)"
  shows "(\<forall>v. read_daily s u d = Some v \<and> dv_fastingSession v = Some fs
            \<longrightarrow> (\<exists>s'. getDailyHealthData s now u d
                         = (Some (v\<lparr>dv_fastingSession :=
                                      Some (fs\<lparr>fs_endTime := Some now, fs_duration := t\<rparr>)\<rparr>), s')))
       \<and> (\<forall>row. distinct (map fs_id (fastingSession_rows s))
              \<and> row \<in> set (dailyHealthData_rows s) \<and> dhd_userId row = u
              \<and> dhd_date row \<in> set (week_dates start)
              \<and> session_of s (dhd_id row) = Some fs
            \<longrightarrow> (weekly_view_of s row)
                   \<lparr>dv_fastingSession := Some (fs\<lparr>fs_endTime := Some now, fs_duration := t\<rparr>)\<rparr>
                  \<in> set (fst (getWeeklyHealthData week_dates s now u start)))"
proof (intro conjI allI impI)
  have pend: "pending_completion now fs = Some (fs_id fs, t)"
    using act tgt exp by (simp add: pending_completion_def)
  {
    fix v
    assume h: "read_daily s u d = Some v \<and> dv_fastingSession v = Some fs"
    then obtain row where row: "find_daily s u d = Some row" and v: "v = daily_view_of s row"
      by (auto simp: read_daily_def)
    from h v have so: "session_of s (dhd_id row) = Some fs"
      by (simp add: daily_view_of_def)
    let ?rows' = "complete_session now (fastingSession_rows s) (fs_id fs, t)"
    let ?s' = "s\<lparr>fastingSession_rows := ?rows'\<rparr>"
    have "session_of ?s' (dhd_id row) = map_option (completed now (fs_id fs, t)) (session_of s (dhd_id row))"
      unfolding session_of_def complete_session_map
      by (simp add: find_map_invariant)
    then have so': "session_of ?s' (dhd_id row) = Some (fs\<lparr>fs_endTime := Some now, fs_duration := t\<rparr>)"
      by (simp add: so completed_def)
    have rd: "read_daily ?s' u d
                = Some (v\<lparr>dv_fastingSession := Some (fs\<lparr>fs_endTime := Some now, fs_duration := t\<rparr>)\<rparr>)"
      using row so' by (simp add: read_daily_def find_daily_def v daily_view_of_def meals_of_def)
    show "\<exists>s'. getDailyHealthData s now u d
                         = (Some (v\<lparr>dv_fastingSession :=
                                      Some (fs\<lparr>fs_endTime := Some now, fs_duration := t\<rparr>)\<rparr>), s')"
      using h pend rd by (simp add: getDailyHealthData_def Let_def)
  }
  {
    fix row
    assume h: "distinct (map fs_id (fastingSession_rows s))
              \<and> row \<in> set (dailyHealthData_rows s) \<and> dhd_userId row = u
              \<and> dhd_date row \<in> set (week_dates start)
              \<and> session_of s (dhd_id row) = Some fs"
    then have dist: "distinct (map fs_id (fastingSession_rows s))"
      and so: "session_of s (dhd_id row) = Some fs" by simp_all
    let ?views = "week_views s u (week_dates start)"
    let ?ups = "pending_completions now ?views"
    from h have vin: "weekly_view_of s row \<in> set ?views"
      by (simp add: week_views_def)
    have sv: "dv_fastingSession (weekly_view_of s row) = Some fs"
      using so by (simp add: weekly_view_of_def)
    have uin: "(fs_id fs, t) \<in> set ?ups"
      unfolding pending_completions_def List.map_filter_def
      using vin sv pend by force
    then have ne: "length ?ups > 0" by auto
    from session_of_in_rows [OF so] have fin: "fs \<in> set (fastingSession_rows s)" by simp
    have same: "\<forall>x \<in> set ?ups. fst x = fs_id fs \<longrightarrow> snd x = t"
    proof (intro ballI impI)
      fix x assume x: "x \<in> set ?ups" and i: "fst x = fs_id fs"
      from pending_completions_members [OF x] obtain g
        where g: "g \<in> set (fastingSession_rows s)" and pg: "pending_completion now g = Some x"
        by blast
      from pending_completion_fst [OF pg] i have "fs_id g = fs_id fs" by simp
      from distinct_ids_eq [OF dist g fin this] have "g = fs" .
      with pg pend show "snd x = t" by auto
    qed
    have ex: "\<exists>x \<in> set ?ups. fst x = fs_id fs"
      using uin by force
    let ?rows' = "foldl (complete_session now) (fastingSession_rows s) ?ups"
    have fd: "find (\<lambda>f. fs_dailyHealthDataId f = dhd_id row) ?rows'
                = Some (fs\<lparr>fs_endTime := Some now, fs_duration := t\<rparr>)"
      unfolding foldl_complete_session
      using so foldl_completed_same [OF same ex, of now]
      by (simp add: find_map_invariant session_of_def)
    have md: "map fs_dailyHealthDataId ?rows' = map fs_dailyHealthDataId (fastingSession_rows s)"
      unfolding foldl_complete_session by (simp add: comp_def)
    have out: "fst (getWeeklyHealthData week_dates s now u start)
                 = map (\<lambda>v. v\<lparr>dv_fastingSession :=
                          find (\<lambda>f. fs_dailyHealthDataId f = dhd_id (dv_row v)) ?rows'\<rparr>) ?views"
      using ne by (simp add: getWeeklyHealthData_def Let_def week_views_sessions [OF md])
    have "(weekly_view_of s row)\<lparr>dv_fastingSession :=
              find (\<lambda>f. fs_dailyHealthDataId f = dhd_id (dv_row (weekly_view_of s row))) ?rows'\<rparr>
            \<in> set (fst (getWeeklyHealthData week_dates s now u start))"
      unfolding out using vin by (rule in_set_mapI)
    then show "(weekly_view_of s row)
                   \<lparr>dv_fastingSession := Some (fs\<lparr>fs_endTime := Some now, fs_duration := t\<rparr>)\<rparr>
                  \<in> set (fst (getWeeklyHealthData week_dates s now u start))"
      using fd by (simp add: weekly_view_of_def)
  }
qed

theorem read_completes_expired_session_witness:
  "fst (getDailyHealthData (fasting_day None 0 (Some 8)) (hours 9) 7 19000)
     = Some \<lparr>dv_row = zeroed_daily 1 7 19000 0, dv_meals = [],
              dv_fastingSession =
                Some \<lparr>fs_id = 2, fs_dailyHealthDataId = 1, fs_type = ''16:8'', fs_startTime = 0,
                      fs_endTime = Some (hours 9), fs_duration = 8, fs_targetDuration = Some 8,
                      fs_eatingWindowStart = None, fs_eatingWindowEnd = None\<rparr>\<rparr>
   \<and> \<lparr>dv_row = zeroed_daily 1 7 19000 0, dv_meals = [],
       dv_fastingSession =
         Some \<lparr>fs_id = 2, fs_dailyHealthDataId = 1, fs_type = ''16:8'', fs_startTime = 0,
               fs_endTime = Some (hours 9), fs_duration = 8, fs_targetDuration = Some 8,
               fs_eatingWindowStart = None, fs_eatingWindowEnd = None\<rparr>\<rparr>
     \<in> set (fst (getWeeklyHealthData utc_week_dates (fasting_day None 0 (Some 8)) (hours 9) 7
                   18997))"
proof -
  let ?fs = "\<lparr>fs_id = 2, fs_dailyHealthDataId = 1, fs_type = ''16:8'', fs_startTime = 0,
              fs_endTime = None, fs_duration = 0, fs_targetDuration = Some 8,
              fs_eatingWindowStart = None, fs_eatingWindowEnd = None\<rparr>"
  let ?s = "fasting_day None 0 (Some 8)"
  let ?v = "\<lparr>dv_row = zeroed_daily 1 7 19000 0, dv_meals = [], dv_fastingSession = Some ?fs\<rparr>"
  have a: "fs_endTime ?fs = None" "fs_targetDuration ?fs = Some 8" "(8::int) \<noteq> 0"
    "real_of_int 8 \<le> elapsedHours (hours 9) (fs_startTime ?fs)"
    by (simp_all add: elapsedHours_def hours_def)
  have r: "read_daily ?s 7 19000 = Some ?v \<and> dv_fastingSession ?v = Some ?fs"
    by (simp add: read_examples)
  have w: "distinct (map fs_id (fastingSession_rows ?s))
             \<and> zeroed_daily 1 7 19000 0 \<in> set (dailyHealthData_rows ?s)
             \<and> dhd_userId (zeroed_daily 1 7 19000 0) = 7
             \<and> dhd_date (zeroed_daily 1 7 19000 0) \<in> set (utc_week_dates 18997)
             \<and> session_of ?s (dhd_id (zeroed_daily 1 7 19000 0)) = Some ?fs"
    by (simp add: read_examples utc_week_dates_def upt_rec)
  have wv: "weekly_view_of ?s (zeroed_daily 1 7 19000 0) = ?v"
    by (simp add: read_examples)
  from read_completes_expired_session [OF a, of ?s 7 19000 utc_week_dates 18997]
  have "(\<exists>s'. getDailyHealthData ?s (hours 9) 7 19000
                = (Some (?v\<lparr>dv_fastingSession :=
                            Some (?fs\<lparr>fs_endTime := Some (hours 9), fs_duration := 8\<rparr>)\<rparr>), s'))
        \<and> (weekly_view_of ?s (zeroed_daily 1 7 19000 0))
             \<lparr>dv_fastingSession := Some (?fs\<lparr>fs_endTime := Some (hours 9), fs_duration := 8\<rparr>)\<rparr>
           \<in> set (fst (getWeeklyHealthData utc_week_dates ?s (hours 9) 7 18997))"
    using r w by blast
  then show ?thesis
    unfolding wv by auto
qed

text \<open>The claim as stated fails for a target duration that is set to 0: an hour after
  the start the session is returned Active, and nothing is written.\<close>

theorem read_zero_target_counterexample:
  "getDailyHealthData (fasting_day None 0 (Some 0)) (hours 1) 7 19000
     = (Some \<lparr>dv_row = zeroed_daily 1 7 19000 0, dv_meals = [],
               dv_fastingSession =
                 Some \<lparr>fs_id = 2, fs_dailyHealthDataId = 1, fs_type = ''16:8'', fs_startTime = 0,
                       fs_endTime = None, fs_duration = 0, fs_targetDuration = Some 0,
                       fs_eatingWindowStart = None, fs_eatingWindowEnd = None\<rparr>\<rparr>,
        fasting_day None 0 (Some 0))
   \<and> real_of_int 0 \<le> elapsedHours (hours 1) 0"
  by (simp add: read_examples)

section \<open>Health service: the duration of a saved fasting session\<close>

lemma Math_round_nearest: "\<bar>real_of_int (Math_round x) - x\<bar> \<le> 1 / 2"
proof -
  have lo: "real_of_int \<lfloor>x + 1 / 2\<rfloor> \<le> x + 1 / 2"
    by (rule of_int_floor_le)
  have hi: "x + 1 / 2 < real_of_int \<lfloor>x + 1 / 2\<rfloor> + 1"
    by linarith
  show ?thesis
    unfolding Math_round_def using lo hi by linarith
qed

lemma durationValue_nearest:
  "(x < 1 / 2 \<longrightarrow> durationValue x = 1)
   \<and> (1 / 2 \<le> x \<longrightarrow> \<bar>real_of_int (durationValue x) - x\<bar> \<le> 1 / 2)"
  using Math_round_nearest [of x] by (simp add: durationValue_def)

lemma find_append_None:
  "find P xs = None \<Longrightarrow> find P (xs @ ys) = find P ys"
  by (induction xs) (auto split: if_splits)

lemma find_rewrite_first:
  assumes "\<And>x. P (g x) = P x"
  shows "find P (rewrite_first P g xs) = map_option g (find P xs)"
  by (induction xs) (simp_all add: assms)

lemma getDailyHealthData_reads:
  assumes "getDailyHealthData s now u d = (r, s1)"
  shows "r = read_daily s1 u d"
  using assms by (auto simp: getDailyHealthData_def Let_def split: option.splits)

text \<open>After the opening read-or-create the day has a row, the one handed on.\<close>

lemma daily_or_create_row:
  assumes "daily_or_create s now u d = (data, s1)"
  shows "find_daily s1 u d = Some (dv_row data)"
proof -
  obtain r s0 where g: "getDailyHealthData s now u d = (r, s0)"
    by (cases "getDailyHealthData s now u d")
  have rd: "r = read_daily s0 u d" using g by (rule getDailyHealthData_reads)
  show ?thesis
  proof (cases r)
    case None
    then have n: "find (\<lambda>x. dhd_userId x = u \<and> dhd_date x = d) (dailyHealthData_rows s0) = None"
      using rd by (simp add: read_daily_def find_daily_def)
    have "data = \<lparr>dv_row = zeroed_daily (health_next_id s0) u d now, dv_meals = [],
                  dv_fastingSession = None\<rparr>"
      and "dailyHealthData_rows s1
             = dailyHealthData_rows s0 @ [zeroed_daily (health_next_id s0) u d now]"
      using assms g None by (auto simp: daily_or_create_def Let_def)
    then show ?thesis
      by (simp add: find_daily_def find_append_None [OF n] zeroed_daily_def)
  next
    case (Some v)
    then have "data = v" and "s1 = s0"
      using assms g by (auto simp: daily_or_create_def)
    then show ?thesis
      using rd Some
      by (cases "find_daily s0 u d") (auto simp: read_daily_def daily_view_of_def)
  qed
qed

lemma upsert_fastingSession_written:
  assumes "\<And>f. session_fits (write f)"
  shows "\<exists>f s'. upsert_fastingSession s k write = Inr (write f, s')"
  by (cases "session_of s k") (auto simp: upsert_fastingSession_def Let_def assms)

text \<open>What the upsert stores is what the day then shows.\<close>

lemma upsert_fastingSession_stored:
  assumes "upsert_fastingSession s k write = Inr (fs, s')"
    and "\<And>f. fs_dailyHealthDataId (write f) = fs_dailyHealthDataId f"
  shows "session_of s' k = Some fs
         \<and> dailyHealthData_rows s' = dailyHealthData_rows s
         \<and> meal_rows s' = meal_rows s"
proof (cases "session_of s k")
  case None
  then have n: "find (\<lambda>f. fs_dailyHealthDataId f = k) (fastingSession_rows s) = None"
    by (simp add: session_of_def)
  show ?thesis
    using assms None
    by (auto simp: upsert_fastingSession_def Let_def session_of_def find_append_None [OF n]
             split: if_splits)
next
  case (Some stored)
  have "find (\<lambda>f. fs_dailyHealthDataId f = k)
          (rewrite_first (\<lambda>f. fs_dailyHealthDataId f = k) write (fastingSession_rows s))
        = map_option write (find (\<lambda>f. fs_dailyHealthDataId f = k) (fastingSession_rows s))"
    by (rule find_rewrite_first) (simp add: assms(2))
  then show ?thesis
    using assms(1) Some
    by (auto simp: upsert_fastingSession_def session_of_def split: if_splits)
qed

text \<open>
  A body with a type and a start time whose rounded duration and target fit the column
  is saved: the session returned carries the end time and the rounded duration that
  \<open>computed_session\<close> gives, and it is the session the day shows afterwards.
\<close>

lemma saveFastingSession_saved:
  assumes "si_type sd = Some ty" and "ty \<noteq> []" and "si_startTime sd = Some start"
    and "fits_int32 (durationValue (snd (computed_session now start sd)))"
    and "case rounded_target (si_targetDuration sd) of None \<Rightarrow> True | Some t \<Rightarrow> fits_int32 t"
  shows "\<exists>fs s'. saveFastingSession s now u d sd = (Inr fs, s')
           \<and> fs_type fs = ty \<and> fs_startTime fs = start
           \<and> fs_endTime fs = fst (computed_session now start sd)
           \<and> fs_duration fs = durationValue (snd (computed_session now start sd))
           \<and> fs_targetDuration fs = rounded_target (si_targetDuration sd)
           \<and> (\<exists>v. read_daily s' u d = Some v \<and> dv_fastingSession v = Some fs)"
proof -
  obtain data s1 where dc: "daily_or_create s now u d = (data, s1)"
    by (cases "daily_or_create s now u d")
  obtain endTime duration where cs: "computed_session now start sd = (endTime, duration)"
    by (cases "computed_session now start sd")
  let ?k = "dhd_id (dv_row data)"
  let ?wr = "\<lambda>f. f\<lparr>fs_type := ty, fs_startTime := start, fs_endTime := endTime,
                        fs_duration := durationValue duration,
                        fs_targetDuration := rounded_target (si_targetDuration sd),
                        fs_eatingWindowStart := si_eatingWindowStart sd,
                        fs_eatingWindowEnd := si_eatingWindowEnd sd\<rparr>"
  have fit: "session_fits (?wr f)" for f
    using assms(4,5) cs by (simp add: session_fits_def)
  from upsert_fastingSession_written [of ?wr s1 ?k, OF fit]
  obtain f0 s' where up0: "upsert_fastingSession s1 ?k ?wr = Inr (?wr f0, s')"
    by blast
  define fs where "fs = ?wr f0"
  have up: "upsert_fastingSession s1 ?k ?wr = Inr (fs, s')"
    using up0 by (simp add: fs_def)
  have w: "\<exists>f. fs = ?wr f"
    unfolding fs_def by blast
  have r: "saveFastingSession s now u d sd = (Inr fs, s')"
    using assms(1-3) dc cs up by (simp add: saveFastingSession_def)
  from upsert_fastingSession_stored [OF up]
  have st: "session_of s' ?k = Some fs"
    and rows: "dailyHealthData_rows s' = dailyHealthData_rows s1"
    by simp_all
  have "find_daily s' u d = Some (dv_row data)"
    using daily_or_create_row [OF dc] rows by (simp add: find_daily_def)
  then have "read_daily s' u d = Some (daily_view_of s' (dv_row data))"
    by (simp add: read_daily_def)
  moreover have "dv_fastingSession (daily_view_of s' (dv_row data)) = Some fs"
    using st by (simp add: daily_view_of_def)
  ultimately have shown: "\<exists>v. read_daily s' u d = Some v \<and> dv_fastingSession v = Some fs"
    by blast
  from w obtain f where f: "fs = ?wr f" by blast
  have fields: "fs_type fs = ty" "fs_startTime fs = start" "fs_endTime fs = endTime"
    "fs_duration fs = durationValue duration"
    "fs_targetDuration fs = rounded_target (si_targetDuration sd)"
    unfolding f by simp_all
  show ?thesis
    using r fields shown cs by auto
qed

text \<open>The end time and the duration for a target \<open>t\<close> that is set and not zero.\<close>

lemma computed_session_with_target:
  assumes "si_targetDuration sd = Some t" and "t \<noteq> 0"
  shows "(si_endTime sd = None \<and> t \<le> elapsedHours now start
            \<longrightarrow> computed_session now start sd = (Some now, t))
       \<and> (si_endTime sd = None \<and> elapsedHours now start < t
            \<longrightarrow> computed_session now start sd = (None, elapsedHours now start))
       \<and> (si_endTime sd \<noteq> None
            \<longrightarrow> computed_session now start sd
                  = (si_endTime sd, min t (case si_duration sd of None \<Rightarrow> 0 | Some x \<Rightarrow> x)))"
  using assms
  by (auto simp: computed_session_def truthy_def Let_def min_def split: option.splits)

lemmas save_session_examples = saveFastingSession_def upsert_fastingSession_def
  session_fits_def fits_int32_def value_out_of_range_def daily_or_create_def
  getDailyHealthData_def read_daily_def find_daily_def daily_view_of_def meals_of_def
  session_of_def zeroed_daily_def empty_health_def Let_def Error_def session_body_def
  computed_session_def truthy_def durationValue_def Math_round_def elapsedHours_def hours_def
  rounded_target_def

text \<open>With a target of 8 hours: 2.6 hours after the start the session is stored Active
  with duration 3, 0.2 hours after it with duration 1, and 9 hours after it Completed
  with duration 8.\<close>

lemma saveFastingSession_target_examples:
  "map_sum err_message (\<lambda>fs. (fs_endTime fs, fs_duration fs))
     (fst (saveFastingSession empty_health 9360000 7 19000 (session_body 0 None None (Some 8))))
     = Inr (None, 3)
   \<and> map_sum err_message (\<lambda>fs. (fs_endTime fs, fs_duration fs))
     (fst (saveFastingSession empty_health 720000 7 19000 (session_body 0 None None (Some 8))))
     = Inr (None, 1)
   \<and> map_sum err_message (\<lambda>fs. (fs_endTime fs, fs_duration fs))
     (fst (saveFastingSession empty_health (hours 9) 7 19000 (session_body 0 None None (Some 8))))
     = Inr (Some (hours 9), 8)"
  by (simp add: save_session_examples)

text \<open>A duration that does not fit the column: the upsert throws and nothing is saved
  but the row of the day.\<close>

lemma saveFastingSession_out_of_range:
  "saveFastingSession empty_health (hours 5) 7 19000
       (session_body 0 (Some (hours 4)) (Some 3000000000) None)
     = (Inl (Error (''Failed to save fasting session: '' @ err_message value_out_of_range)),
        \<lparr>dailyHealthData_rows = [zeroed_daily 1 7 19000 (hours 5)], meal_rows = [],
         fastingSession_rows = [], health_next_id = 2\<rparr>)"
  by (simp add: save_session_examples)

text \<open>
  Claim C3. A body with a type and a start time, without end time, target and duration,
  is saved 2.6 hours after its start time. The duration is to be the elapsed hours,
  stored as 3. The function computes the elapsed hours only under a target; here it
  keeps the sent duration, 0 when none is sent, and stores 1. The session returned is
  the session stored. The function does not do what is claimed, nor what its comment
  \<open>Calculate actual duration if session is still active\<close> says.
\<close>

theorem saveFastingSession_no_target_duration:
  "saveFastingSession empty_health 9360000 7 19000 (session_body 0 None None None)
     = (Inr \<lparr>fs_id = 2, fs_dailyHealthDataId = 1, fs_type = ''16:8'', fs_startTime = 0,
             fs_endTime = None, fs_duration = 1, fs_targetDuration = None,
             fs_eatingWindowStart = None, fs_eatingWindowEnd = None\<rparr>,
        \<lparr>dailyHealthData_rows = [zeroed_daily 1 7 19000 9360000], meal_rows = [],
         fastingSession_rows =
           [\<lparr>fs_id = 2, fs_dailyHealthDataId = 1, fs_type = ''16:8'', fs_startTime = 0,
             fs_endTime = None, fs_duration = 1, fs_targetDuration = None,
             fs_eatingWindowStart = None, fs_eatingWindowEnd = None\<rparr>],
         health_next_id = 3\<rparr>)
   \<and> elapsedHours 9360000 0 = 13 / 5
   \<and> durationValue (elapsedHours 9360000 0) = 3"
  by (simp add: save_session_examples)

section \<open>Health service: starting a fasting session\<close>

lemma read_daily_session:
  assumes "read_daily s u d = Some v"
  shows "dv_fastingSession v = session_of s (dhd_id (dv_row v))"
  using assms by (auto simp: read_daily_def daily_view_of_def)

lemma pending_completion_ended:
  "fs_endTime fs = Some e \<Longrightarrow> pending_completion now fs = None"
  by (simp add: pending_completion_def split: option.splits)

text \<open>
  What a start does, for a target that fits the column. When the day holds a session
  that is Active and that the read does not complete (no target, target 0, or target
  not yet reached), it fails with the conflict error and changes nothing. When the day
  has no row yet (and no session carries the id the new row gets), or has a row without
  session, it succeeds: the created session starts \<open>now\<close>, has no end time and duration
  0, and is the session the day shows afterwards.
\<close>

lemma startFastingSession_conflict_or_create:
  assumes fit: "case rounded_target target of None \<Rightarrow> True | Some t \<Rightarrow> fits_int32 t"
  shows "(\<forall>v fs. read_daily s u d = Some v \<and> dv_fastingSession v = Some fs
              \<and> fs_endTime fs = None \<and> pending_completion now fs = None
            \<longrightarrow> startFastingSession s now u d ty target ews ewe
                  = (Inl active_session_exists, s))
       \<and> ((read_daily s u d = None \<and> session_of s (health_next_id s) = None)
              \<or> (\<exists>v. read_daily s u d = Some v \<and> dv_fastingSession v = None)
            \<longrightarrow> (\<exists>row s'. startFastingSession s now u d ty target ews ewe = (Inr row, s')
                  \<and> fs_startTime row = now \<and> fs_endTime row = None \<and> fs_duration row = 0
                  \<and> fs_type row = ty
                  \<and> (\<exists>v'. read_daily s' u d = Some v' \<and> dv_fastingSession v' = Some row)))"
proof (intro conjI allI impI)
  fix v fs
  assume "read_daily s u d = Some v \<and> dv_fastingSession v = Some fs
        \<and> fs_endTime fs = None \<and> pending_completion now fs = None"
  then show "startFastingSession s now u d ty target ews ewe = (Inl active_session_exists, s)"
    by (simp add: startFastingSession_def daily_or_create_def getDailyHealthData_def)
next
  assume h: "(read_daily s u d = None \<and> session_of s (health_next_id s) = None)
        \<or> (\<exists>v. read_daily s u d = Some v \<and> dv_fastingSession v = None)"
  have f: "session_fits \<lparr>fs_id = i, fs_dailyHealthDataId = k, fs_type = ty, fs_startTime = now,
                          fs_endTime = None, fs_duration = 0,
                          fs_targetDuration = rounded_target target,
                          fs_eatingWindowStart = ews, fs_eatingWindowEnd = ewe\<rparr>" for i k
    using fit by (simp add: session_fits_def fits_int32_def)
  show "\<exists>row s'. startFastingSession s now u d ty target ews ewe = (Inr row, s')
            \<and> fs_startTime row = now \<and> fs_endTime row = None \<and> fs_duration row = 0
            \<and> fs_type row = ty
            \<and> (\<exists>v'. read_daily s' u d = Some v' \<and> dv_fastingSession v' = Some row)"
    using h
  proof
    assume a: "read_daily s u d = None \<and> session_of s (health_next_id s) = None"
    then have n: "find (\<lambda>x. dhd_userId x = u \<and> dhd_date x = d) (dailyHealthData_rows s) = None"
      and m: "find (\<lambda>f. fs_dailyHealthDataId f = health_next_id s) (fastingSession_rows s) = None"
      by (simp_all add: read_daily_def find_daily_def session_of_def)
    show ?thesis
      using a f
      by (simp add: startFastingSession_def daily_or_create_def getDailyHealthData_def Let_def
            create_fastingSession_def session_of_def zeroed_daily_def read_daily_def
            find_daily_def daily_view_of_def find_append_None [OF n] find_append_None [OF m])
  next
    assume "\<exists>v. read_daily s u d = Some v \<and> dv_fastingSession v = None"
    then obtain v where v: "read_daily s u d = Some v" and n: "dv_fastingSession v = None"
      by blast
    from read_daily_session [OF v] n have so: "session_of s (dhd_id (dv_row v)) = None"
      by simp
    then have m: "find (\<lambda>f. fs_dailyHealthDataId f = dhd_id (dv_row v)) (fastingSession_rows s)
                    = None"
      by (simp add: session_of_def)
    from v obtain row where row: "find_daily s u d = Some row" and vr: "dv_row v = row"
      by (auto simp: read_daily_def daily_view_of_def)
    show ?thesis
      using v n so f row vr
      by (simp add: startFastingSession_def daily_or_create_def getDailyHealthData_def Let_def
            create_fastingSession_def session_of_def read_daily_def find_daily_def
            daily_view_of_def find_append_None [OF m [unfolded vr]])
  qed
qed

text \<open>
  When the day holds a session that is Completed, the read leaves it as it is, the
  check for an Active session passes, and the create meets the session row of the day:
  the start fails and changes nothing.
\<close>

lemma startFastingSession_completed_fails:
  assumes "read_daily s u d = Some v" and "dv_fastingSession v = Some fs"
    and "fs_endTime fs = Some e"
    and fit: "case rounded_target target of None \<Rightarrow> True | Some t \<Rightarrow> fits_int32 t"
  shows "startFastingSession s now u d ty target ews ewe
           = (Inl (Error (''Failed to start fasting session: '' @
                          err_message unique_constraint_failed)), s)"
proof -
  have g: "getDailyHealthData s now u d = (Some v, s)"
    using assms(1,2) pending_completion_ended [OF assms(3)]
    by (simp add: getDailyHealthData_def)
  have so: "session_of s (dhd_id (dv_row v)) = Some fs"
    using read_daily_session [OF assms(1)] assms(2) by simp
  have f: "session_fits \<lparr>fs_id = i, fs_dailyHealthDataId = k, fs_type = ty, fs_startTime = now,
                          fs_endTime = None, fs_duration = 0,
                          fs_targetDuration = rounded_target target,
                          fs_eatingWindowStart = ews, fs_eatingWindowEnd = ewe\<rparr>" for i k
    using fit by (simp add: session_fits_def fits_int32_def)
  show ?thesis
    using g so f assms(2,3)
    by (simp add: startFastingSession_def daily_or_create_def Let_def
          create_fastingSession_def)
qed

lemmas start_examples = startFastingSession_def daily_or_create_def getDailyHealthData_def
  read_daily_def find_daily_def daily_view_of_def meals_of_def session_of_def zeroed_daily_def
  empty_health_def Let_def Error_def fasting_day_def pending_completion_def
  complete_session_def completed_def elapsedHours_def hours_def rounded_target_def
  create_fastingSession_def active_session_exists_def unique_constraint_failed_def
  Math_round_def session_fits_def fits_int32_def

text \<open>Three hours into an eight-hour fast a start fails with the conflict error; on a
  day without row it creates the session.\<close>

lemma startFastingSession_examples:
  "startFastingSession (fasting_day None 0 (Some 8)) (hours 3) 7 19000 ''16:8'' (Some 8) None None
     = (Inl active_session_exists, fasting_day None 0 (Some 8))
   \<and> startFastingSession empty_health (hours 3) 7 19000 ''16:8'' (Some 8) None None
     = (Inr \<lparr>fs_id = 2, fs_dailyHealthDataId = 1, fs_type = ''16:8'', fs_startTime = hours 3,
             fs_endTime = None, fs_duration = 0, fs_targetDuration = Some 8,
             fs_eatingWindowStart = None, fs_eatingWindowEnd = None\<rparr>,
        \<lparr>dailyHealthData_rows = [zeroed_daily 1 7 19000 (hours 3)], meal_rows = [],
         fastingSession_rows =
           [\<lparr>fs_id = 2, fs_dailyHealthDataId = 1, fs_type = ''16:8'', fs_startTime = hours 3,
             fs_endTime = None, fs_duration = 0, fs_targetDuration = Some 8,
             fs_eatingWindowStart = None, fs_eatingWindowEnd = None\<rparr>],
         health_next_id = 3\<rparr>)"
  by (simp add: start_examples)

text \<open>
  Claim C4. The session of day 19000 of user 7 was Completed at hour 8; at hour 20 the
  user starts a new session for that day. The start is to succeed and create a session
  that starts now. The function rejects only an Active session, then creates a row; the
  Completed session still is the one session row of the day, the create violates the
  unique key of the one-to-one relation, and the start fails with that error. Nothing
  is stored. The function does not do what is claimed.
\<close>

theorem startFastingSession_after_completed:
  "startFastingSession (fasting_day (Some (hours 8)) 8 (Some 8)) (hours 20) 7 19000 ''16:8''
       (Some 8) None None
     = (Inl (Error (''Failed to start fasting session: '' @
                    err_message unique_constraint_failed)),
        fasting_day (Some (hours 8)) 8 (Some 8))"
  by (simp add: start_examples)

text \<open>The same happens to an Active session whose target is reached: nine hours into
  an eight-hour fast the read completes the session, and the start then fails on the
  unique key, not with the conflict error.\<close>

lemma startFastingSession_after_expired:
  "startFastingSession (fasting_day None 0 (Some 8)) (hours 9) 7 19000 ''16:8'' (Some 8) None None
     = (Inl (Error (''Failed to start fasting session: '' @
                    err_message unique_constraint_failed)),
        fasting_day (Some (hours 9)) 8 (Some 8))
   \<and> Error (''Failed to start fasting session: '' @ err_message unique_constraint_failed)
       \<noteq> active_session_exists"
  by (simp add: start_examples)

section \<open>Health service: the uniqueness violation of the daily upsert\<close>

lemma write_daily_key [simp]:
  "dhd_id (write_daily data d) = dhd_id d"
  "dhd_userId (write_daily data d) = dhd_userId d"
  "dhd_date (write_daily data d) = dhd_date d"
  "dhd_createdAt (write_daily data d) = dhd_createdAt d"
  by (simp_all add: write_daily_def)

lemma map_rewrite_first:
  assumes "\<And>x. f (g x) = f x"
  shows "map f (rewrite_first P g xs) = map f xs"
  by (induction xs) (simp_all add: assms)

text \<open>The scan for the rows of a key finds nothing when the lookup by the key finds
  nothing: both read the same table.\<close>

lemma duplicates_of_empty:
  assumes "find_daily s u d = None"
  shows "duplicates_of s u d = []"
proof -
  have "filter (\<lambda>r. dhd_userId r = u \<and> dhd_date r = d) (dailyHealthData_rows s) = []"
    using assms by (simp add: find_daily_def find_None_iff filter_empty_conv)
  then show ?thesis by (simp add: duplicates_of_def)
qed

text \<open>So the catch path has two outcomes. When a row has the key, the write goes to
  the row the key resolves to and the caller gets that row; otherwise the error is
  thrown again.\<close>

lemma saveDailyHealthData_violation_found:
  assumes "is_unique_violation error" and "find_daily s u (di_date data) = Some row"
  shows "saveDailyHealthData s now u data (Some error)
           = (Inr (write_daily data row),
              s\<lparr>dailyHealthData_rows :=
                  rewrite_first (\<lambda>r. dhd_userId r = u \<and> dhd_date r = di_date data)
                    (write_daily data) (dailyHealthData_rows s)\<rparr>)"
  using assms by (simp add: saveDailyHealthData_def update_daily_by_key_def)

lemma saveDailyHealthData_violation_not_found:
  assumes "find_daily s u (di_date data) = None"
  shows "saveDailyHealthData s now u data (Some error) = (Inl error, s)"
  using assms duplicates_of_empty [OF assms]
  by (simp add: saveDailyHealthData_def)

text \<open>The branch that keeps the oldest row and deletes the rest is never taken: a
  failed upsert deletes no row, whatever the table holds.\<close>

lemma saveDailyHealthData_fault_deletes_nothing:
  "map dhd_id (dailyHealthData_rows (snd (saveDailyHealthData s now u data (Some error))))
     = map dhd_id (dailyHealthData_rows s)"
proof (cases "find_daily s u (di_date data)")
  case None
  then show ?thesis by (simp add: saveDailyHealthData_violation_not_found)
next
  case (Some row)
  show ?thesis
  proof (cases "is_unique_violation error")
    case True
    then show ?thesis
      unfolding saveDailyHealthData_violation_found [OF True Some]
      by (simp add: map_rewrite_first)
  next
    case False
    then show ?thesis by (simp add: saveDailyHealthData_def)
  qed
qed

lemmas save_daily_examples = saveDailyHealthData_def update_daily_by_key_def find_daily_def
  write_daily_def zeroed_daily_def duplicated_day_def totals_body_def is_unique_violation_def
  unique_constraint_failed_def duplicates_of_def Let_def

text \<open>
  Claim C6. Two rows are stored for day 19000 of user 7, row 1 created at instant 200
  and row 2 at instant 100, and the upsert of new totals for that day throws the
  uniqueness violation. The oldest row of the key is row 2, so row 1 is the one to
  delete. The lookup by the key finds a row, the function updates by the key and
  returns, and the scan that would keep the oldest row is not reached: both rows are
  stored afterwards. The function does not do what is claimed.
\<close>

theorem saveDailyHealthData_leaves_duplicates:
  "map dhd_id (duplicates_of duplicated_day 7 (di_date totals_body)) = [2, 1]
   \<and> map dhd_id
        (dailyHealthData_rows
           (snd (saveDailyHealthData duplicated_day 300 7 totals_body
                   (Some unique_constraint_failed))))
       = [1, 2]"
  by (simp add: save_daily_examples)

text \<open>In the model the key resolves to row 1, the first in the table: the write goes to
  the newer row and the caller gets it.\<close>

lemma saveDailyHealthData_writes_found_row:
  "saveDailyHealthData duplicated_day 300 7 totals_body (Some unique_constraint_failed)
     = (Inr ((zeroed_daily 1 7 19000 200)\<lparr>caloriesConsumed := 500, steps := 4000\<rparr>),
        duplicated_day
          \<lparr>dailyHealthData_rows :=
             [(zeroed_daily 1 7 19000 200)\<lparr>caloriesConsumed := 500, steps := 4000\<rparr>,
              zeroed_daily 2 7 19000 100]\<rparr>)"
  by (simp add: save_daily_examples)

end
